theory Spec2Isabelle
  imports Complex_Main "HOL-Library.Multiset" "HOL-Library.List_Lexorder" "HOL-Library.Char_ord"
    "HOL-Library.Product_Lexorder"
begin

section \<open>JavaScript strings and arrays\<close>

text \<open>
  Strings are lists of characters. The sources only ever split on a one-character
  separator (a line feed or a slash), so \<open>str_split\<close> takes a character;
  \<open>String.prototype.split\<close> never returns an empty array.
\<close>

fun str_split :: "char \<Rightarrow> string \<Rightarrow> string list" where
  "str_split c [] = [[]]"
| "str_split c (x # xs) =
     (if x = c then [] # str_split c xs
      else (x # hd (str_split c xs)) # tl (str_split c xs))"

fun str_join :: "string \<Rightarrow> string list \<Rightarrow> string" where
  "str_join sep [] = []"
| "str_join sep [x] = x"
| "str_join sep (x # y # ys) = x @ sep @ str_join sep (y # ys)"

text \<open>
  \<open>xs.splice(start, deleteCount, ...items)\<close> for a start that is not negative: a start
  beyond the end is clamped to the length, and so is the number of deleted elements.
\<close>

definition splice_js :: "'a list \<Rightarrow> nat \<Rightarrow> nat \<Rightarrow> 'a list \<Rightarrow> 'a list" where
  "splice_js xs start deleteCount items = take start xs @ items @ drop (start + deleteCount) xs"

text \<open>Reading \<open>xs[i]\<close>: \<open>None\<close> is JavaScript's \<open>undefined\<close>.\<close>

definition arr_get :: "'a list \<Rightarrow> nat \<Rightarrow> 'a option" where
  "arr_get xs i = (if i < length xs then Some (xs ! i) else None)"

text \<open>
  Writing \<open>lines[i] = v\<close> on an array of strings. Beyond the end JavaScript extends the
  array with holes; every array written this way is joined at once, and \<open>join\<close> renders a
  hole as the empty string, so the holes are modelled as empty strings.
\<close>

definition arr_set :: "string list \<Rightarrow> nat \<Rightarrow> string \<Rightarrow> string list" where
  "arr_set xs i v =
     (if i < length xs then xs[i := v] else xs @ replicate (i - length xs) [] @ [v])"

text \<open>\<open>lines[i] || ""\<close>: a missing line and an empty line both give the empty string.\<close>

definition line_or_empty :: "string list \<Rightarrow> nat \<Rightarrow> string" where
  "line_or_empty xs i = (case arr_get xs i of None \<Rightarrow> [] | Some l \<Rightarrow> l)"

text \<open>
  Characters are code units below 256. In that range the white space of
  \<open>String.prototype.trim\<close> and of the regular expression class \<open>\s\<close> is tab, line feed,
  vertical tab, form feed, carriage return, space and the no-break space.
\<close>

definition is_space :: "char \<Rightarrow> bool" where
  "is_space c \<longleftrightarrow>
     c = CHR 0x09 \<or> c = CHR 0x0A \<or> c = CHR 0x0B \<or> c = CHR 0x0C \<or> c = CHR 0x0D \<or>
     c = CHR 0x20 \<or> c = CHR 0xA0"

definition str_trim :: "string \<Rightarrow> string" where
  "str_trim s = rev (dropWhile is_space (rev (dropWhile is_space s)))"

datatype js_error = TypeError


section \<open>The modal line editor of the terminal (TerminalAppComponent.tsx)\<close>

datatype vim_mode = Normal | Command | Insert

record vim_file =
  vf_name :: string
  vf_content :: string

text \<open>
  The component state the editor's key handlers read and write. \<open>vimClipboard\<close> is
  declared a string, but \<open>setVimClipboard(lines[vimCursorLine])\<close> stores \<open>undefined\<close> when
  the cursor is outside the array, hence the option. \<open>lastKeyPress\<close> is the ref
  \<open>lastKeyPressRef.current\<close>, a key and the time of its press in milliseconds.
\<close>

record vim_state =
  isInVimMode :: bool
  vimFile :: "vim_file option"
  vimPosition :: nat
  vimCursorLine :: nat
  vimCursorColumn :: nat
  vimMode :: vim_mode
  vimClipboard :: "string option"
  lastKeyPress :: "string \<times> int"

text \<open>\<open>vimFile.content.split("\n")\<close>, the array of lines every handler starts from.\<close>

definition file_lines :: "vim_file \<Rightarrow> string list" where
  "file_lines f = str_split (CHR 0x0A) (vf_content f)"

definition set_lines :: "vim_file \<Rightarrow> string list \<Rightarrow> vim_file" where
  "set_lines f ls = f\<lparr>vf_content := str_join [CHR 0x0A] ls\<rparr>"

text \<open>The buffer a state shows: the lines of the open file, if one is open.\<close>

definition buffer :: "vim_state \<Rightarrow> string list option" where
  "buffer st = map_option file_lines (vimFile st)"

text \<open>
  Scrolling: \<open>maxVisibleLines = 20\<close>, \<open>lowerThreshold = floor(20 * 0.4) = 8\<close>,
  \<open>upperThreshold = floor(20 * 0.6) = 12\<close>, \<open>maxPosition = max(0, n - 20)\<close>.
\<close>

definition scroll_up :: "nat \<Rightarrow> nat \<Rightarrow> nat" where
  "scroll_up newLine pos =
     (if int newLine - int pos < 8 \<and> pos > 0 then max (pos - 1) 0 else pos)"

definition scroll_down :: "nat \<Rightarrow> nat \<Rightarrow> nat \<Rightarrow> nat" where
  "scroll_down newLine pos n =
     (let maxPosition = n - 20
      in if int newLine - int pos > 12 \<and> pos < maxPosition then min (pos + 1) maxPosition else pos)"

subsection \<open>Insert mode\<close>

text \<open>
  Backspace. At column 0 of a line that is not the first, the line is merged into the
  previous one: \<open>previousLine.length\<close> raises a TypeError when there is no previous line
  in the array, and a missing current line is concatenated as the text \<open>undefined\<close>.
\<close>

definition insertBackspace :: "vim_state \<Rightarrow> js_error + vim_state" where
  "insertBackspace st =
     (case vimFile st of
        None \<Rightarrow> Inr st
      | Some f \<Rightarrow>
          let lines = file_lines f; ln = vimCursorLine st; col = vimCursorColumn st in
          if col = 0 \<and> ln > 0 then
            (case arr_get lines (ln - 1) of
               None \<Rightarrow> Inl TypeError
             | Some previousLine \<Rightarrow>
                 let currentLine = (case arr_get lines ln of None \<Rightarrow> ''undefined'' | Some l \<Rightarrow> l);
                     merged = arr_set lines (ln - 1) (previousLine @ currentLine);
                     newLines = splice_js merged ln 1 []
                 in Inr (st\<lparr>vimFile := Some (set_lines f newLines),
                            vimCursorLine := ln - 1,
                            vimCursorColumn := length previousLine,
                            vimPosition := scroll_up (ln - 1) (vimPosition st)\<rparr>))
          else if col > 0 then
            (let currentLine = line_or_empty lines ln;
                 newLine = take (col - 1) currentLine @ drop col currentLine
             in Inr (st\<lparr>vimFile := Some (set_lines f (arr_set lines ln newLine)),
                        vimCursorColumn := max 0 (col - 1)\<rparr>))
          else Inr st)"

text \<open>Enter splits the current line at the cursor.\<close>

definition insertEnter :: "vim_state \<Rightarrow> vim_state" where
  "insertEnter st =
     (case vimFile st of
        None \<Rightarrow> st
      | Some f \<Rightarrow>
          let lines = file_lines f; ln = vimCursorLine st; col = vimCursorColumn st;
              currentLine = line_or_empty lines ln;
              beforeCursor = take col currentLine;
              afterCursor = drop col currentLine;
              newLines = splice_js (arr_set lines ln beforeCursor) (ln + 1) 0 [afterCursor]
          in st\<lparr>vimFile := Some (set_lines f newLines),
                vimCursorLine := ln + 1,
                vimCursorColumn := 0,
                vimPosition := scroll_down (ln + 1) (vimPosition st) (length newLines)\<rparr>)"

text \<open>Tab inserts two spaces at the cursor.\<close>

definition insertTab :: "vim_state \<Rightarrow> vim_state" where
  "insertTab st =
     (case vimFile st of
        None \<Rightarrow> st
      | Some f \<Rightarrow>
          let lines = file_lines f; ln = vimCursorLine st; col = vimCursorColumn st;
              currentLine = line_or_empty lines ln;
              newLine = take col currentLine @ ''  '' @ drop col currentLine
          in st\<lparr>vimFile := Some (set_lines f (arr_set lines ln newLine)),
                vimCursorColumn := col + 2\<rparr>)"

text \<open>Delete removes the character under the cursor, or merges the next line in.\<close>

definition insertDelete :: "vim_state \<Rightarrow> vim_state" where
  "insertDelete st =
     (case vimFile st of
        None \<Rightarrow> st
      | Some f \<Rightarrow>
          let lines = file_lines f; ln = vimCursorLine st; col = vimCursorColumn st;
              currentLine = line_or_empty lines ln in
          if col = length currentLine \<and> int ln < int (length lines) - 1 then
            (let nextLine = lines ! (ln + 1);
                 merged = arr_set lines ln (currentLine @ nextLine)
             in st\<lparr>vimFile := Some (set_lines f (splice_js merged (ln + 1) 1 []))\<rparr>)
          else if col < length currentLine then
            (let newLine = take col currentLine @ drop (col + 1) currentLine
             in st\<lparr>vimFile := Some (set_lines f (arr_set lines ln newLine))\<rparr>)
          else st)"

text \<open>
  \<open>handleVimTextInput\<close>: a typed character arrives as the last character of the input
  field's text (\<open>inputText.slice(-1)\<close>, empty for an empty text) and is inserted at the
  cursor. The handler guards itself.
\<close>

definition handleVimTextInput :: "string \<Rightarrow> vim_state \<Rightarrow> vim_state" where
  "handleVimTextInput inputText st =
     (case vimFile st of
        None \<Rightarrow> st
      | Some f \<Rightarrow>
          if \<not> isInVimMode st \<or> vimMode st \<noteq> Insert then st
          else
            let lastChar = (if inputText = [] then [] else [last inputText]);
                lines = file_lines f; ln = vimCursorLine st; col = vimCursorColumn st;
                currentLine = line_or_empty lines ln;
                newLine = take col currentLine @ lastChar @ drop col currentLine
            in st\<lparr>vimFile := Some (set_lines f (arr_set lines ln newLine)),
                  vimCursorColumn := col + 1\<rparr>)"

subsection \<open>Normal mode\<close>

text \<open>\<open>o\<close> opens an empty line below the cursor line, \<open>O\<close> above it.\<close>

definition normal_o :: "vim_state \<Rightarrow> vim_state" where
  "normal_o st =
     (case vimFile st of
        None \<Rightarrow> st
      | Some f \<Rightarrow>
          let lines = file_lines f; ln = vimCursorLine st;
              newLines = splice_js lines (ln + 1) 0 [[]]
          in st\<lparr>vimFile := Some (set_lines f newLines),
                vimCursorLine := ln + 1,
                vimCursorColumn := 0,
                vimMode := Insert,
                vimPosition := scroll_down (ln + 1) (vimPosition st) (length lines)\<rparr>)"

definition normal_O :: "vim_state \<Rightarrow> vim_state" where
  "normal_O st =
     (case vimFile st of
        None \<Rightarrow> st
      | Some f \<Rightarrow>
          let lines = file_lines f; ln = vimCursorLine st;
              newLines = splice_js lines ln 0 [[]]
          in st\<lparr>vimFile := Some (set_lines f newLines),
                vimCursorColumn := 0,
                vimMode := Insert\<rparr>)"

text \<open>
  \<open>d\<close> (without Ctrl) at time \<open>now\<close>. The press is recorded in \<open>lastKeyPressRef\<close>; when
  the recorded key was \<open>d\<close> less than 500 ms ago the command \<open>dd\<close> runs and the record is
  reset.
\<close>

definition normal_d :: "int \<Rightarrow> vim_state \<Rightarrow> vim_state" where
  "normal_d now st =
     (case vimFile st of
        None \<Rightarrow> st
      | Some f \<Rightarrow>
          let lines = file_lines f; ln = vimCursorLine st;
              lastKey = lastKeyPress st;
              st1 = st\<lparr>lastKeyPress := (''d'', now)\<rparr> in
          if fst lastKey = ''d'' \<and> now - snd lastKey < 500 then
            (if length lines > 1 then
               (let newLines = splice_js lines ln 1 []
                in st1\<lparr>vimClipboard := arr_get lines ln,
                       vimFile := Some (set_lines f newLines),
                       vimCursorLine :=
                         (if ln \<ge> length newLines then max 0 (length newLines - 1) else ln),
                       vimCursorColumn := 0,
                       lastKeyPress := ([], 0)\<rparr>)
             else
               st1\<lparr>vimClipboard := arr_get lines 0,
                    vimFile := Some (set_lines f [[]]),
                    vimCursorColumn := 0,
                    lastKeyPress := ([], 0)\<rparr>)
          else st1)"

text \<open>\<open>y\<close>: \<open>yy\<close> copies the cursor line.\<close>

definition normal_y :: "int \<Rightarrow> vim_state \<Rightarrow> vim_state" where
  "normal_y now st =
     (case vimFile st of
        None \<Rightarrow> st
      | Some f \<Rightarrow>
          let lines = file_lines f; lastKey = lastKeyPress st;
              st1 = st\<lparr>lastKeyPress := (''y'', now)\<rparr> in
          if fst lastKey = ''y'' \<and> now - snd lastKey < 500 then
            st1\<lparr>vimClipboard := arr_get lines (vimCursorLine st), lastKeyPress := ([], 0)\<rparr>
          else st1)"

text \<open>\<open>p\<close> pastes a clipboard that is neither \<open>undefined\<close> nor empty below the cursor line.\<close>

definition normal_p :: "vim_state \<Rightarrow> vim_state" where
  "normal_p st =
     (case vimFile st of
        None \<Rightarrow> st
      | Some f \<Rightarrow>
          (case vimClipboard st of
             None \<Rightarrow> st
           | Some clip \<Rightarrow>
               if clip = [] then st
               else
                 let lines = file_lines f; ln = vimCursorLine st;
                     newLines = splice_js lines (ln + 1) 0 [clip]
                 in st\<lparr>vimFile := Some (set_lines f newLines),
                       vimCursorLine := ln + 1,
                       vimCursorColumn := 0,
                       vimPosition := scroll_down (ln + 1) (vimPosition st) (length lines)\<rparr>))"

text \<open>
  The branches of \<open>handleKeyDown\<close> and \<open>handleVimTextInput\<close> that call \<open>setVimFile\<close> with
  edited lines, each with the guard under which the handler reaches it: the insert-mode
  keys are read only in insert mode, the others in the two other modes (the handler's
  second block does not test the mode again). \<open>None\<close> means the branch is not taken.
\<close>

datatype vim_edit =
    InsBackspace | InsEnter | InsTab | InsDelete | TextInput string
  | OpenBelow | OpenAbove | PressD int | Paste

fun vim_edit_step :: "vim_edit \<Rightarrow> vim_state \<Rightarrow> (js_error + vim_state) option" where
  "vim_edit_step (TextInput t) st = Some (Inr (handleVimTextInput t st))"
| "vim_edit_step e st =
     (if \<not> isInVimMode st then None
      else if vimMode st = Insert then
        (case e of
           InsBackspace \<Rightarrow> Some (insertBackspace st)
         | InsEnter \<Rightarrow> Some (Inr (insertEnter st))
         | InsTab \<Rightarrow> Some (Inr (insertTab st))
         | InsDelete \<Rightarrow> Some (Inr (insertDelete st))
         | _ \<Rightarrow> None)
      else
        (case e of
           OpenBelow \<Rightarrow> Some (Inr (normal_o st))
         | OpenAbove \<Rightarrow> Some (Inr (normal_O st))
         | PressD now \<Rightarrow> Some (Inr (normal_d now st))
         | Paste \<Rightarrow> Some (Inr (normal_p st))
         | _ \<Rightarrow> None))"


text \<open>
  A run of editing steps: it stops where a branch is not taken and where a handler raises.
\<close>

fun vim_edit_run :: "vim_edit list \<Rightarrow> vim_state \<Rightarrow> (js_error + vim_state) option" where
  "vim_edit_run [] st = Some (Inr st)"
| "vim_edit_run (e # es) st =
     (case vim_edit_step e st of
        None \<Rightarrow> None
      | Some (Inl err) \<Rightarrow> Some (Inl err)
      | Some (Inr st') \<Rightarrow> vim_edit_run es st')"

text \<open>
  The editor state after the command \<open>vim <file>\<close> opened a file with the given text in a
  fresh terminal: \<open>processCommand\<close> sets the mode, the file, the scroll position and the
  cursor; the clipboard and \<open>lastKeyPressRef\<close> still have their initial values.
\<close>

definition vim_open :: "string \<Rightarrow> string \<Rightarrow> vim_state" where
  "vim_open fileName text =
     \<lparr>isInVimMode = True, vimFile = Some \<lparr>vf_name = fileName, vf_content = text\<rparr>,
      vimPosition = 0, vimCursorLine = 0, vimCursorColumn = 0, vimMode = Normal,
      vimClipboard = Some [], lastKeyPress = ([], 0)\<rparr>"


section \<open>The room messages of the chat (useChatCore, in chats/utils/helpers.ts)\<close>

text \<open>
  A JavaScript number as far as a time stamp is concerned: \<open>NaN\<close>, an infinity, or the
  real value of a finite double.
\<close>

datatype js_number = NaN | NegInf | Fin real | PosInf

text \<open>
  The order in which the comparator \<open>(a, b) => a.timestamp - b.timestamp\<close> puts numbers
  other than \<open>NaN\<close>: the difference of two doubles has the sign of their order, and the
  difference of two equal infinities is \<open>NaN\<close>, which \<open>sort\<close> reads as 0. A \<open>NaN\<close> is
  in order with nothing: the comparator answers \<open>NaN\<close> for it against every number.
\<close>

fun ts_key :: "js_number \<Rightarrow> int \<times> real" where
  "ts_key NegInf = (- 1, 0)"
| "ts_key (Fin r) = (0, r)"
| "ts_key PosInf = (1, 0)"
| "ts_key NaN = (2, 0)"

definition num_le :: "js_number \<Rightarrow> js_number \<Rightarrow> bool" where
  "num_le a b \<longleftrightarrow> a \<noteq> NaN \<and> b \<noteq> NaN \<and> ts_key a \<le> ts_key b"

text \<open>
  \<open>new Date(v).getTime()\<close> for a number \<open>v\<close>: the time value is clipped, \<open>NaN\<close> unless \<open>v\<close>
  is finite and at most 8.64e15 in size, and cut to a whole number of milliseconds.
\<close>

definition time_clip :: "js_number \<Rightarrow> js_number" where
  "time_clip v =
     (case v of
        Fin r \<Rightarrow>
          if \<bar>r\<bar> \<le> 8640000000000000
          then Fin (of_int (if r < 0 then \<lceil>r\<rceil> else \<lfloor>r\<rfloor>)) else NaN
      | _ \<Rightarrow> NaN)"

text \<open>
  A message's \<open>timestamp\<close> arrives as \<open>string | number\<close>. \<open>new Date(s).getTime()\<close> on a
  string is the parameter \<open>parseDate\<close> of the handlers; it is \<open>NaN\<close> for a string that is
  no date.
\<close>

datatype js_timestamp = TsString string | TsNumber js_number

record wire_message =
  w_id :: string
  w_roomId :: string
  w_username :: string
  w_content :: string
  w_timestamp :: js_timestamp
  w_isPending :: bool

record room_message =
  msg_id :: string
  msg_roomId :: string
  msg_username :: string
  msg_content :: string
  msg_timestamp :: js_number
  msg_isPending :: bool

text \<open>
  \<open>typeof t === 'string' ? new Date(t).getTime() : t\<close>, as the message handler and the
  fetch do it: a number is taken as it comes.
\<close>

definition received_time :: "(string \<Rightarrow> js_number) \<Rightarrow> js_timestamp \<Rightarrow> js_number" where
  "received_time parseDate t = (case t of TsString s \<Rightarrow> parseDate s | TsNumber n \<Rightarrow> n)"

text \<open>\<open>new Date(t).getTime()\<close>, as the confirmation of a sent message does it.\<close>

definition date_time :: "(string \<Rightarrow> js_number) \<Rightarrow> js_timestamp \<Rightarrow> js_number" where
  "date_time parseDate t = (case t of TsString s \<Rightarrow> parseDate s | TsNumber n \<Rightarrow> time_clip n)"

text \<open>\<open>{ ...message, timestamp: time }\<close>\<close>

definition with_time :: "js_number \<Rightarrow> wire_message \<Rightarrow> room_message" where
  "with_time time m =
     \<lparr>msg_id = w_id m, msg_roomId = w_roomId m, msg_username = w_username m,
      msg_content = w_content m, msg_timestamp = time, msg_isPending = w_isPending m\<rparr>"

text \<open>
  \<open>xs.sort((a, b) => a.timestamp - b.timestamp)\<close> is the parameter \<open>sortFn\<close> of the
  handlers. What the language promises of it is \<open>sort_conforms\<close>: the result has the
  elements of the array, and where no time stamp is \<open>NaN\<close> (the comparator is then
  consistent) it is the stable sort in the order of the numbers. With a \<open>NaN\<close> among the
  time stamps the order of the result is left to the engine.
\<close>

definition no_nan :: "room_message list \<Rightarrow> bool" where
  "no_nan ms \<longleftrightarrow> list_all (\<lambda>m. msg_timestamp m \<noteq> NaN) ms"

definition stable_by_timestamp :: "room_message list \<Rightarrow> room_message list" where
  "stable_by_timestamp ms = sort_key (\<lambda>m. ts_key (msg_timestamp m)) ms"

definition sort_conforms :: "(room_message list \<Rightarrow> room_message list) \<Rightarrow> bool" where
  "sort_conforms sortFn \<longleftrightarrow>
     (\<forall>ms. mset (sortFn ms) = mset ms \<and> (no_nan ms \<longrightarrow> sortFn ms = stable_by_timestamp ms))"

record send_request =
  req_roomId :: string
  req_username :: string
  req_content :: string

text \<open>
  The state of the hook and a record of what it does to the outside: the requests it
  posts to \<open>/api/chat-rooms?action=sendMessage\<close>, its calls of \<open>saveRoomMessagesToCache\<close>,
  its \<open>console.error\<close> lines (label and error message) and the messages it hands to the
  assistant chat with \<open>append\<close>. \<open>input\<close> is the text of the input field.
\<close>

record chat_state =
  roomMessages :: "room_message list"
  isSendingRoomMessage :: bool
  input :: string
  sentRequests :: "send_request list"
  cacheWrites :: "(string \<times> room_message list) list"
  consoleErrors :: "(string \<times> string) list"
  aiAppends :: "string list"

text \<open>
  The handler bound to the event \<open>room-message\<close>. \<open>currentRoomId\<close> is
  \<open>currentRoomIdRef.current\<close> (\<open>None\<close> for \<open>null\<close>; the empty string is falsy too).
\<close>

definition handleRoomMessage ::
  "(room_message list \<Rightarrow> room_message list) \<Rightarrow> (string \<Rightarrow> js_number) \<Rightarrow>
   string option \<Rightarrow> string \<Rightarrow> wire_message \<Rightarrow> chat_state \<Rightarrow> chat_state" where
  "handleRoomMessage sortFn parseDate currentRoomId roomId message st =
     (case currentRoomId of
        None \<Rightarrow> st
      | Some r \<Rightarrow>
          if r \<noteq> [] \<and> roomId = r then
            (let prevMessages = roomMessages st;
                 isDuplicate = list_ex (\<lambda>msg. msg_id msg = w_id message) prevMessages
             in if \<not> isDuplicate then
                  (let newMessage = with_time (received_time parseDate (w_timestamp message)) message;
                       updatedMessages = sortFn (prevMessages @ [newMessage])
                   in st\<lparr>roomMessages := updatedMessages,
                         cacheWrites := cacheWrites st @
                           [(r, filter (\<lambda>msg. \<not> msg_isPending msg) updatedMessages)]\<rparr>)
                else st)
          else st)"

text \<open>
  The effect that keeps \<open>currentRoomIdRef\<close> and binds the handler. Its dependencies are
  \<open>[isWindowOpen, isForeground]\<close>: React runs it after the first render and after a render
  in which one of the two has changed, the clean-up of the previous run (which unbinds
  the handler) first. The effect writes \<open>currentRoom?.id || null\<close> to the ref, returns when
  the window is closed or in the background, and binds the handler otherwise (the
  Pusher client is taken to start without an error).
\<close>

record core_props =
  currentRoom :: "string option"
  isWindowOpen :: bool
  isForeground :: bool

record pusher_hook =
  hookChat :: chat_state
  currentRoomIdRef :: "string option"
  handlerBound :: bool
  effectDeps :: "(bool \<times> bool) option"

definition pusher_effect :: "core_props \<Rightarrow> pusher_hook \<Rightarrow> pusher_hook" where
  "pusher_effect props hk =
     (let hk1 = hk\<lparr>currentRoomIdRef :=
                     (case currentRoom props of
                        None \<Rightarrow> None
                      | Some roomId \<Rightarrow> if roomId = [] then None else Some roomId)\<rparr>
      in if \<not> isWindowOpen props \<or> \<not> isForeground props then hk1
         else hk1\<lparr>handlerBound := True\<rparr>)"

definition render_hook :: "core_props \<Rightarrow> pusher_hook \<Rightarrow> pusher_hook" where
  "render_hook props hk =
     (if effectDeps hk = Some (isWindowOpen props, isForeground props) then hk
      else pusher_effect props
             (hk\<lparr>handlerBound := False,
                 effectDeps := Some (isWindowOpen props, isForeground props)\<rparr>))"

text \<open>An event \<open>room-message\<close> on the channel reaches the handler if it is bound.\<close>

definition room_message_event ::
  "(room_message list \<Rightarrow> room_message list) \<Rightarrow> (string \<Rightarrow> js_number) \<Rightarrow>
   string \<Rightarrow> wire_message \<Rightarrow> pusher_hook \<Rightarrow> pusher_hook" where
  "room_message_event sortFn parseDate roomId message hk =
     (if handlerBound hk
      then hk\<lparr>hookChat :=
                 handleRoomMessage sortFn parseDate (currentRoomIdRef hk) roomId message (hookChat hk)\<rparr>
      else hk)"

text \<open>
  \<open>handleSubmit\<close> up to the point where the request is under way. \<open>tempId\<close> is the result
  of \<open>generateId()\<close> and \<open>now\<close> that of \<open>Date.now()\<close>; \<open>room\<close> is the id of the current
  room, if there is one.
\<close>

definition handleSubmit ::
  "(room_message list \<Rightarrow> room_message list) \<Rightarrow> string \<Rightarrow> int \<Rightarrow> string option \<Rightarrow>
   string option \<Rightarrow> chat_state \<Rightarrow> chat_state" where
  "handleSubmit sortFn tempId now room username st =
     (let messageContent = str_trim (input st) in
      if messageContent = [] then st
      else
        (case (room, username) of
           (Some roomId, Some user) \<Rightarrow>
             if user \<noteq> [] then
               (let newMessage =
                      \<lparr>msg_id = tempId, msg_roomId = roomId, msg_username = user,
                       msg_content = messageContent, msg_timestamp = Fin (of_int now),
                       msg_isPending = True\<rparr>
                in st\<lparr>roomMessages := sortFn (roomMessages st @ [newMessage]),
                      isSendingRoomMessage := True,
                      sentRequests := sentRequests st @
                        [\<lparr>req_roomId = roomId, req_username = user, req_content = messageContent\<rparr>],
                      input := []\<rparr>)
             else st\<lparr>aiAppends := aiAppends st @ [messageContent], input := []\<rparr>
         | _ \<Rightarrow> st\<lparr>aiAppends := aiAppends st @ [messageContent], input := []\<rparr>))"

text \<open>
  How the request ends: the chain rejects with an error of the given message before
  \<open>data.message\<close> is read (\<open>fetch\<close> or \<open>response.json()\<close> rejects, or the body is
  \<open>null\<close>), or the body is parsed and has the fields \<open>message\<close> and \<open>error\<close>, either
  of which may be missing.
\<close>

datatype send_outcome =
    Rejected string
  | Body "wire_message option" "string option"

text \<open>
  The \<open>then\<close>, \<open>catch\<close> and \<open>finally\<close> callbacks of the request, run on the state of the
  moment the request ends.
\<close>

definition handleSendSettled ::
  "(room_message list \<Rightarrow> room_message list) \<Rightarrow> (string \<Rightarrow> js_number) \<Rightarrow>
   string \<Rightarrow> string \<Rightarrow> send_outcome \<Rightarrow> chat_state \<Rightarrow> chat_state" where
  "handleSendSettled sortFn parseDate tempId room outcome st =
     (let failed = (\<lambda>errorMessage.
            st\<lparr>consoleErrors := consoleErrors st @ [(''Error sending room message:'', errorMessage)],
               roomMessages := filter (\<lambda>msg. msg_id msg \<noteq> tempId) (roomMessages st),
               isSendingRoomMessage := False\<rparr>)
      in case outcome of
           Rejected e \<Rightarrow> failed e
         | Body None err \<Rightarrow>
             failed (case err of
                       None \<Rightarrow> ''Failed to send message''
                     | Some e \<Rightarrow> if e = [] then ''Failed to send message'' else e)
         | Body (Some message) err \<Rightarrow>
             (let prev = roomMessages st;
                  confirmedMessage = with_time (date_time parseDate (w_timestamp message)) message;
                  updated = map (\<lambda>msg. if msg_id msg = tempId then confirmedMessage else msg) prev
              in if \<not> list_ex (\<lambda>msg. msg_id msg = msg_id confirmedMessage \<and> msg_id msg \<noteq> tempId) prev
                 then
                   (let ordered = sortFn updated
                    in st\<lparr>roomMessages := ordered,
                          cacheWrites := cacheWrites st @
                            [(room, filter (\<lambda>msg. \<not> msg_isPending msg) ordered)],
                          isSendingRoomMessage := False\<rparr>)
                 else
                   (let final = sortFn (filter (\<lambda>msg. msg_id msg \<noteq> tempId) prev)
                    in st\<lparr>roomMessages := final,
                          cacheWrites := cacheWrites st @ [(room, final)],
                          isSendingRoomMessage := False\<rparr>)))"

text \<open>
  \<open>fetchAndSetRoomMessages\<close>. \<open>cachedMessages\<close> is what \<open>loadCachedRoomMessages\<close> returned
  (\<open>None\<close> for \<open>null\<close>). The first part runs at once, the second when the request for the
  room's messages ends: with an error, or with the array \<open>data.messages || []\<close>.
\<close>

definition has_cache :: "room_message list option \<Rightarrow> bool" where
  "has_cache cachedMessages = (case cachedMessages of None \<Rightarrow> False | Some c \<Rightarrow> c \<noteq> [])"

definition fetch_begin :: "room_message list option \<Rightarrow> chat_state \<Rightarrow> chat_state" where
  "fetch_begin cachedMessages st =
     (if has_cache cachedMessages then st\<lparr>roomMessages := the cachedMessages\<rparr>
      else st\<lparr>roomMessages := []\<rparr>)"

datatype fetch_outcome = FetchFailed string | Fetched "wire_message list"

definition fetch_settle ::
  "(room_message list \<Rightarrow> room_message list) \<Rightarrow> (string \<Rightarrow> js_number) \<Rightarrow>
   string \<Rightarrow> room_message list option \<Rightarrow> fetch_outcome \<Rightarrow> chat_state \<Rightarrow> chat_state" where
  "fetch_settle sortFn parseDate roomId cachedMessages outcome st =
     (let finalMessages = (if has_cache cachedMessages then the cachedMessages else []) in
      case outcome of
        FetchFailed e \<Rightarrow>
          st\<lparr>consoleErrors := consoleErrors st @
                [(''[useChatCore] Error fetching room messages for '' @ roomId @ '':'', e)],
             roomMessages := finalMessages\<rparr>
      | Fetched messages \<Rightarrow>
          (let fetchedMessages =
                 sortFn (map (\<lambda>msg. with_time (received_time parseDate (w_timestamp msg)) msg) messages)
           in if fetchedMessages \<noteq> [] then
                (if sort (map msg_id finalMessages) \<noteq> sort (map msg_id fetchedMessages) then
                   st\<lparr>cacheWrites := cacheWrites st @ [(roomId, fetchedMessages)],
                      roomMessages := fetchedMessages\<rparr>
                 else if finalMessages \<noteq> [] then
                   st\<lparr>cacheWrites := cacheWrites st @ [(roomId, finalMessages)]\<rparr>
                 else st)
              else if finalMessages \<noteq> [] then
                st\<lparr>cacheWrites := cacheWrites st @ [(roomId, [])], roomMessages := []\<rparr>
              else st))"

text \<open>
  The list is in nondecreasing order of timestamp: each message stands in order with each
  later one. \<open>in_time_order\<close> says moreover that no time stamp of the list is \<open>NaN\<close>.
\<close>

definition sorted_by_timestamp :: "room_message list \<Rightarrow> bool" where
  "sorted_by_timestamp ms = sorted_wrt (\<lambda>a b. num_le (msg_timestamp a) (msg_timestamp b)) ms"

definition in_time_order :: "room_message list \<Rightarrow> bool" where
  "in_time_order ms \<longleftrightarrow> no_nan ms \<and> sorted_by_timestamp ms"

text \<open>
  For concrete runs: messages of a room, an empty hook state, a date parser that knows
  no date, and the stable sort that puts \<open>NaN\<close> last as the engine's \<open>sort\<close>.
\<close>

definition msgA :: wire_message where
  "msgA = \<lparr>w_id = ''a'', w_roomId = ''r1'', w_username = ''ann'', w_content = ''hi'',
           w_timestamp = TsNumber (Fin 20), w_isPending = False\<rparr>"

definition msgB :: wire_message where
  "msgB = \<lparr>w_id = ''b'', w_roomId = ''r1'', w_username = ''bob'', w_content = ''yo'',
           w_timestamp = TsNumber (Fin 10), w_isPending = False\<rparr>"

definition msgSrv :: wire_message where
  "msgSrv = \<lparr>w_id = ''srv'', w_roomId = ''r1'', w_username = ''ann'', w_content = ''hello'',
             w_timestamp = TsString ''soon'', w_isPending = False\<rparr>"

definition shownA :: room_message where
  "shownA = with_time (Fin 20) msgA"

definition shownB :: room_message where
  "shownB = with_time (Fin 10) msgB"

definition pendingTmp :: room_message where
  "pendingTmp = \<lparr>msg_id = ''tmp'', msg_roomId = ''r1'', msg_username = ''ann'',
                 msg_content = ''hello'', msg_timestamp = Fin 30, msg_isPending = True\<rparr>"

definition chat0 :: chat_state where
  "chat0 = \<lparr>roomMessages = [], isSendingRoomMessage = False, input = [],
            sentRequests = [], cacheWrites = [], consoleErrors = [], aiAppends = []\<rparr>"

definition no_date :: "string \<Rightarrow> js_number" where
  "no_date s = NaN"

definition reference_sort :: "room_message list \<Rightarrow> room_message list" where
  "reference_sort ms = stable_by_timestamp ms"

text \<open>
  The hook before its first render, and after two renders with the window open and in
  the foreground: the first with no room, the second with the room \<open>r1\<close> selected.
\<close>

definition hook0 :: pusher_hook where
  "hook0 = \<lparr>hookChat = chat0, currentRoomIdRef = None, handlerBound = False, effectDeps = None\<rparr>"

definition hook_room_selected :: pusher_hook where
  "hook_room_selected =
     render_hook \<lparr>currentRoom = Some ''r1'', isWindowOpen = True, isForeground = True\<rparr>
       (render_hook \<lparr>currentRoom = None, isWindowOpen = True, isForeground = True\<rparr> hook0)"


section \<open>The email data editor (EmailDataEditor.tsx)\<close>

text \<open>
  The values \<open>JSON.parse\<close> returns. An object is the list of its own properties, each
  key once. A number is the value of the parsed double; only whether it is zero matters
  here.
\<close>

datatype json =
    JNull | JBool bool | JNumber real | JString string
  | JArray "json list" | JObject "(string \<times> json) list"

text \<open>
  Reading one of the properties \<open>emails\<close>, \<open>threads\<close>, \<open>labels\<close>, \<open>user\<close> of a parsed value:
  on \<open>null\<close> the read raises a TypeError; a boolean, a number, a string and an array have
  no property of these names, so the read gives \<open>undefined\<close> (\<open>None\<close>).
\<close>

fun get_prop :: "json \<Rightarrow> string \<Rightarrow> js_error + json option" where
  "get_prop JNull k = Inl TypeError"
| "get_prop (JObject kvs) k = Inr (map_of kvs k)"
| "get_prop v k = Inr None"

text \<open>\<open>!v\<close> is false for a truthy \<open>v\<close>: all but \<open>undefined\<close>, \<open>null\<close>, \<open>false\<close>, zero and \<open>""\<close>.\<close>

fun truthy :: "json option \<Rightarrow> bool" where
  "truthy None = False"
| "truthy (Some JNull) = False"
| "truthy (Some (JBool b)) = b"
| "truthy (Some (JNumber n)) = (n \<noteq> 0)"
| "truthy (Some (JString s)) = (s \<noteq> [])"
| "truthy (Some (JArray xs)) = True"
| "truthy (Some (JObject kvs)) = True"

fun isArray :: "json option \<Rightarrow> bool" where
  "isArray (Some (JArray xs)) = True"
| "isArray v = False"

fun js_typeof :: "json option \<Rightarrow> string" where
  "js_typeof None = ''undefined''"
| "js_typeof (Some JNull) = ''object''"
| "js_typeof (Some (JBool b)) = ''boolean''"
| "js_typeof (Some (JNumber n)) = ''number''"
| "js_typeof (Some (JString s)) = ''string''"
| "js_typeof (Some (JArray xs)) = ''object''"
| "js_typeof (Some (JObject kvs)) = ''object''"

text \<open>
  The state of the editor: the text of the text area, the error shown, and the values
  \<open>onSave\<close> has been called with.
\<close>

record editor_state =
  jsonData :: string
  editorError :: "string option"
  onSaveCalls :: "json list"

text \<open>
  \<open>handleSave\<close>. \<open>JSON_parse\<close> is \<open>JSON.parse\<close>, giving the parsed value or the message of
  its SyntaxError; \<open>nullReadMessage\<close> is the message of the TypeError the engine raises
  for reading a property of \<open>null\<close>. Every error thrown in the \<open>try\<close> block is an \<open>Error\<close>,
  so the \<open>catch\<close> block always shows its message.
\<close>

definition handleSave ::
  "(string \<Rightarrow> string + json) \<Rightarrow> string \<Rightarrow> editor_state \<Rightarrow> editor_state" where
  "handleSave JSON_parse nullReadMessage st =
     (case JSON_parse (jsonData st) of
        Inl syntaxErrorMessage \<Rightarrow> st\<lparr>editorError := Some syntaxErrorMessage\<rparr>
      | Inr parsedData \<Rightarrow>
          (case get_prop parsedData ''emails'' of
             Inl TypeError \<Rightarrow> st\<lparr>editorError := Some nullReadMessage\<rparr>
           | Inr emails \<Rightarrow>
               if \<not> truthy emails \<or> \<not> isArray emails then
                 st\<lparr>editorError := Some ''Invalid data: 'emails' must be an array''\<rparr>
               else
                 (case get_prop parsedData ''threads'' of
                    Inl TypeError \<Rightarrow> st\<lparr>editorError := Some nullReadMessage\<rparr>
                  | Inr threads \<Rightarrow>
                      if \<not> truthy threads \<or> \<not> isArray threads then
                        st\<lparr>editorError := Some ''Invalid data: 'threads' must be an array''\<rparr>
                      else
                        (case get_prop parsedData ''labels'' of
                           Inl TypeError \<Rightarrow> st\<lparr>editorError := Some nullReadMessage\<rparr>
                         | Inr labels \<Rightarrow>
                             if \<not> truthy labels \<or> \<not> isArray labels then
                               st\<lparr>editorError := Some ''Invalid data: 'labels' must be an array''\<rparr>
                             else
                               (case get_prop parsedData ''user'' of
                                  Inl TypeError \<Rightarrow> st\<lparr>editorError := Some nullReadMessage\<rparr>
                                | Inr user \<Rightarrow>
                                    if \<not> truthy user \<or> js_typeof user \<noteq> ''object'' then
                                      st\<lparr>editorError := Some ''Invalid data: 'user' must be an object''\<rparr>
                                    else
                                      st\<lparr>editorError := None,
                                         onSaveCalls := onSaveCalls st @ [parsedData]\<rparr>)))))"

text \<open>
  What the checks are meant to establish, said of the parsed value alone: a property of
  the given name that is an array, or that is an object. In JavaScript an array is an
  object too (and \<open>null\<close> is not one, though \<open>typeof null\<close> is \<open>"object"\<close>).
\<close>

definition has_array :: "json \<Rightarrow> string \<Rightarrow> bool" where
  "has_array d k = (case d of JObject kvs \<Rightarrow> (case map_of kvs k of Some (JArray xs) \<Rightarrow> True | _ \<Rightarrow> False) | _ \<Rightarrow> False)"

definition has_object :: "json \<Rightarrow> string \<Rightarrow> bool" where
  "has_object d k =
     (case d of
        JObject kvs \<Rightarrow>
          (case map_of kvs k of Some (JObject ps) \<Rightarrow> True | Some (JArray xs) \<Rightarrow> True | _ \<Rightarrow> False)
      | _ \<Rightarrow> False)"

definition valid_email_data :: "json \<Rightarrow> bool" where
  "valid_email_data d \<longleftrightarrow>
     has_array d ''emails'' \<and> has_array d ''threads'' \<and> has_array d ''labels'' \<and> has_object d ''user''"

text \<open>The four messages of the checks.\<close>

definition check_messages :: "string list" where
  "check_messages =
     [''Invalid data: 'emails' must be an array'', ''Invalid data: 'threads' must be an array'',
      ''Invalid data: 'labels' must be an array'', ''Invalid data: 'user' must be an object'']"

text \<open>A string in double quotes, and a parser for two texts, for concrete runs.\<close>

definition quoted :: "string \<Rightarrow> string" where
  "quoted s = CHR 0x22 # s @ [CHR 0x22]"

definition sample_good :: string where
  "sample_good = ''{'' @ quoted ''emails'' @ '':[],'' @ quoted ''threads'' @ '':[],'' @
     quoted ''labels'' @ '':[],'' @ quoted ''user'' @ '':{}}''"

definition sample_bad :: string where
  "sample_bad = ''{'' @ quoted ''emails'' @ '':3}''"

definition parse_sample :: "string \<Rightarrow> string + json" where
  "parse_sample t =
     (if t = sample_good then
        Inr (JObject [(''emails'', JArray []), (''threads'', JArray []), (''labels'', JArray []),
                      (''user'', JObject [])])
      else if t = sample_bad then Inr (JObject [(''emails'', JNumber 3)])
      else Inl ''Unexpected token'')"


section \<open>Applying edits to a document (applyTextEditChanges, chats/utils/textEditUtils.ts)\<close>

datatype edit_type = EInsert | EReplace | EDelete

text \<open>
  \<open>TextEditOperation\<close>: \<open>count\<close> and \<open>content\<close> are optional. Line numbers and counts are
  doubles in the code. The model follows it on whole numbers of size up to \<open>2^53\<close>: a
  double holds each of them, so a sum or difference of two of them is computed exactly
  whenever its true value is again of that size. Where the code would compute a number
  beyond that size, the model stops with \<open>None\<close>. (\<open>parseTextEditMarkup\<close> reads line numbers
  and counts from digits with \<open>parseInt\<close>.)
\<close>

record text_edit =
  e_type :: edit_type
  e_line :: int
  e_count :: "int option"
  e_content :: "string option"

definition exact :: "int \<Rightarrow> bool" where
  "exact n \<longleftrightarrow> \<bar>n\<bar> \<le> 9007199254740992"

definition chk :: "int \<Rightarrow> int option" where
  "chk n = (if exact n then Some n else None)"

text \<open>\<open>edit.count || 1\<close>\<close>

definition count_or_1 :: "text_edit \<Rightarrow> int" where
  "count_or_1 e = (case e_count e of None \<Rightarrow> 1 | Some c \<Rightarrow> if c = 0 then 1 else c)"

definition exact_edit :: "text_edit \<Rightarrow> bool" where
  "exact_edit e \<longleftrightarrow> exact (e_line e) \<and> exact (count_or_1 e)"

text \<open>
  The validation at the head of the loop body: the edit is skipped with a warning. For a
  line number of size up to \<open>2^53\<close> the test on the double \<open>edit.line - 1\<close> has the
  outcome of the test on the true difference: the difference is exact from \<open>-2^53 + 1\<close>
  on, and for the line number \<open>-2^53\<close> both are negative.
\<close>

definition invalid_edit :: "text_edit \<Rightarrow> string list \<Rightarrow> bool" where
  "invalid_edit edit lines =
     (let lineIndex = e_line edit - 1 in
      (e_type edit = EInsert \<and> (lineIndex < 0 \<or> lineIndex > int (length lines))) \<or>
      ((e_type edit = EReplace \<or> e_type edit = EDelete) \<and>
         (lineIndex < 0 \<or> lineIndex \<ge> int (length lines))))"

text \<open>
  The \<open>switch\<close> on the type of a validated edit: the new lines and \<open>lineCountChange\<close>.
  After the validation \<open>lineIndex\<close> lies between 0 and the number of lines. A negative
  count reaches \<open>splice\<close> as it is and deletes nothing there.
\<close>

definition apply_edit :: "text_edit \<Rightarrow> string list \<Rightarrow> (string list \<times> int) option" where
  "apply_edit edit lines =
     (let lineIndex = e_line edit - 1; len = int (length lines) in
      case e_type edit of
        EInsert \<Rightarrow>
          (case e_content edit of
             None \<Rightarrow> Some (lines, 0)
           | Some c \<Rightarrow>
               let newLines = str_split (CHR 0x0A) c;
                   lineIndex = (if lineIndex > len then len else lineIndex)
               in Some (splice_js lines (nat lineIndex) 0 newLines, int (length newLines)))
      | EReplace \<Rightarrow>
          (case e_content edit of
             None \<Rightarrow> Some (lines, 0)
           | Some c \<Rightarrow>
               let count = min (count_or_1 edit) (len - lineIndex);
                   newLines = str_split (CHR 0x0A) c;
                   lineIndex = (if lineIndex \<ge> len then max 0 (len - 1) else lineIndex)
               in map_option (\<lambda>lineCountChange.
                      (splice_js lines (nat lineIndex) (nat count) newLines, lineCountChange))
                    (chk (int (length newLines) - count)))
      | EDelete \<Rightarrow>
          (let count = min (count_or_1 edit) (len - lineIndex)
           in Some (splice_js lines (nat lineIndex) (nat count) [], - count)))"

text \<open>
  The inner loop: after an edit that changed the number of lines, the line number of
  each later edit beyond the threshold is moved and clamped. \<open>len\<close> is the number of
  lines after the edit. The threshold \<open>edit.line + (edit.count || 1) - 1\<close> is a sum and
  then a difference.
\<close>

definition adjust_edit :: "text_edit \<Rightarrow> int \<Rightarrow> nat \<Rightarrow> text_edit \<Rightarrow> text_edit option" where
  "adjust_edit edit lineCountChange len later =
     (case (if e_type edit = EReplace \<or> e_type edit = EDelete
            then Option.bind (chk (e_line edit + count_or_1 edit)) (\<lambda>s. chk (s - 1))
            else Some (e_line edit)) of
        None \<Rightarrow> None
      | Some adjustmentThreshold \<Rightarrow>
          if e_line later > adjustmentThreshold then
            (case chk (e_line later + lineCountChange) of
               None \<Rightarrow> None
             | Some moved \<Rightarrow>
                 Some (if moved \<le> 0 then later\<lparr>e_line := 1\<rparr>
                       else if e_type later \<noteq> EInsert \<and> moved > int len then
                         (if e_type later = EReplace \<or> e_type later = EDelete
                          then later\<lparr>e_line := max 1 (int len)\<rparr> else later\<lparr>e_line := moved\<rparr>)
                       else later\<lparr>e_line := moved\<rparr>))
          else Some later)"

fun map_checked :: "('a \<Rightarrow> 'b option) \<Rightarrow> 'a list \<Rightarrow> 'b list option" where
  "map_checked f [] = Some []"
| "map_checked f (x # xs) =
     (case f x of
        None \<Rightarrow> None
      | Some y \<Rightarrow> map_option (\<lambda>ys. y # ys) (map_checked f xs))"

text \<open>
  One turn of the outer loop: the lines and the later edits after it. An edit that
  fails the validation leaves both as they are.
\<close>

definition edit_turn ::
  "text_edit \<Rightarrow> string list \<Rightarrow> text_edit list \<Rightarrow> (string list \<times> text_edit list) option" where
  "edit_turn edit lines rest =
     (if invalid_edit edit lines then Some (lines, rest)
      else
        (case apply_edit edit lines of
           None \<Rightarrow> None
         | Some (newLines, lineCountChange) \<Rightarrow>
             if lineCountChange \<noteq> 0
             then map_option (\<lambda>later. (newLines, later))
                    (map_checked (adjust_edit edit lineCountChange (length newLines)) rest)
             else Some (newLines, rest)))"

text \<open>The outer loop over the sorted copy of the edits.\<close>

function apply_loop :: "string list \<Rightarrow> text_edit list \<Rightarrow> string list option" where
  "apply_loop lines [] = Some lines"
| "apply_loop lines (edit # rest) =
     (case edit_turn edit lines rest of
        None \<Rightarrow> None
      | Some (newLines, later) \<Rightarrow> apply_loop newLines later)"
  by pat_completeness auto
termination
proof -
  have len: "length ys = length xs" if "map_checked f xs = Some ys"
    for f :: "text_edit \<Rightarrow> text_edit option" and xs ys
    using that by (induction xs arbitrary: ys) (auto split: option.splits)
  have turn: "length later = length rest" if "edit_turn edit lines rest = Some (newLines, later)"
    for edit lines rest newLines later
    using that by (auto simp: edit_turn_def dest: len split: if_splits option.splits prod.splits)
  show ?thesis
    by (relation "measure (\<lambda>(lines, edits). length edits)") (auto dest: turn)
qed

text \<open>
  \<open>applyTextEditChanges\<close>. The copy of the edits is sorted by line with the stable
  \<open>Array.prototype.sort\<close>; on numbers of size up to \<open>2^53\<close> the comparator
  \<open>a.line - b.line\<close> has the sign of their order. (The copy is shallow, so the line numbers
  are adjusted in the caller's objects; the objects of a list are taken to be distinct, as
  those built by \<open>parseTextEditMarkup\<close> are. The warnings written to the console are left
  out.)
\<close>

definition applyTextEditChanges :: "string \<Rightarrow> text_edit list \<Rightarrow> string option" where
  "applyTextEditChanges content edits =
     (if edits = [] then Some content
      else if \<not> list_all exact_edit edits then None
      else map_option (str_join [CHR 0x0A])
             (apply_loop (str_split (CHR 0x0A) content) (sort_key e_line edits)))"

text \<open>
  The lines and the edit, with its line number as adjusted so far, at the moment the
  loop reaches the \<open>i\<close>-th edit of the list.
\<close>

fun reached :: "string list \<Rightarrow> text_edit list \<Rightarrow> nat \<Rightarrow> (string list \<times> text_edit) option" where
  "reached lines [] i = None"
| "reached lines (edit # rest) 0 = Some (lines, edit)"
| "reached lines (edit # rest) (Suc i) =
     (case edit_turn edit lines rest of
        None \<Rightarrow> None
      | Some (newLines, later) \<Rightarrow> reached newLines later i)"

text \<open>
  Out of range, in words of line numbers: an insert below line 1 or beyond the line
  after the last, a replace or delete below line 1 or beyond the last line.
\<close>

definition out_of_range :: "text_edit \<Rightarrow> string list \<Rightarrow> bool" where
  "out_of_range edit lines =
     (case e_type edit of
        EInsert \<Rightarrow> e_line edit < 1 \<or> e_line edit > int (length lines) + 1
      | _ \<Rightarrow> e_line edit < 1 \<or> e_line edit > int (length lines))"

text \<open>
  The place of an edit in the order of processing: behind the edits of a smaller line
  number and behind the edits of the same line number that come before it in the list.
\<close>

definition place_in_order :: "text_edit list \<Rightarrow> text_edit \<Rightarrow> text_edit list \<Rightarrow> nat" where
  "place_in_order earlier edit later =
     length (filter (\<lambda>x. e_line x < e_line edit) (earlier @ later)) +
     length (filter (\<lambda>x. e_line x = e_line edit) earlier)"

text \<open>Edits and a document of two lines, for concrete runs.\<close>

definition ins :: "int \<Rightarrow> string \<Rightarrow> text_edit" where
  "ins n c = \<lparr>e_type = EInsert, e_line = n, e_count = None, e_content = Some c\<rparr>"

definition del :: "int \<Rightarrow> text_edit" where
  "del n = \<lparr>e_type = EDelete, e_line = n, e_count = Some 1, e_content = None\<rparr>"

definition doc_ab :: string where
  "doc_ab = ''a'' @ [CHR 0x0A] @ ''b''"


section \<open>The command line of the terminal (TerminalAppComponent.tsx)\<close>

subsection \<open>parseCommand\<close>

definition DQ :: char where "DQ = CHR 0x22"

definition SQ :: char where "SQ = CHR 0x27"

text \<open>The class \<open>[^\s"']\<close>.\<close>

definition is_plain :: "char \<Rightarrow> bool" where
  "is_plain c \<longleftrightarrow> \<not> is_space c \<and> c \<noteq> DQ \<and> c \<noteq> SQ"

text \<open>
  A match of \<open>/[^\s"']+|"([^"]*)"|'([^']*)'/\<close>: the matched text \<open>match[0]\<close> and the two
  capture groups, \<open>None\<close> for a group that did not take part.
\<close>

record regex_match =
  m_all :: string
  m_group1 :: "string option"
  m_group2 :: "string option"

text \<open>
  A match that starts at the head of the text, with the text behind it. The
  alternatives are tried in order: a longest run of plain characters; a double quote, the
  characters up to the next double quote, and that quote; the same with single quotes. A
  quote that is not closed matches nothing.
\<close>

definition match_here :: "string \<Rightarrow> (regex_match \<times> string) option" where
  "match_here s =
     (case s of
        [] \<Rightarrow> None
      | c # cs \<Rightarrow>
          if is_plain c then
            Some (\<lparr>m_all = takeWhile is_plain s, m_group1 = None, m_group2 = None\<rparr>,
                  dropWhile is_plain s)
          else if c = DQ \<and> DQ \<in> set cs then
            (let inner = takeWhile (\<lambda>x. x \<noteq> DQ) cs
             in Some (\<lparr>m_all = DQ # inner @ [DQ], m_group1 = Some inner, m_group2 = None\<rparr>,
                      tl (dropWhile (\<lambda>x. x \<noteq> DQ) cs)))
          else if c = SQ \<and> SQ \<in> set cs then
            (let inner = takeWhile (\<lambda>x. x \<noteq> SQ) cs
             in Some (\<lparr>m_all = SQ # inner @ [SQ], m_group1 = None, m_group2 = Some inner\<rparr>,
                      tl (dropWhile (\<lambda>x. x \<noteq> SQ) cs)))
          else None)"

text \<open>
  The body of the loop: \<open>if (match[1]) ... else if (match[2]) ... else parts.push(match[0])\<close>.
  A group that is \<open>undefined\<close> or empty is falsy.
\<close>

definition pushed_part :: "regex_match \<Rightarrow> string" where
  "pushed_part m =
     (case m_group1 m of
        Some g1 \<Rightarrow> if g1 \<noteq> [] then g1 else m_all m
      | None \<Rightarrow>
          (case m_group2 m of
             Some g2 \<Rightarrow> if g2 \<noteq> [] then g2 else m_all m
           | None \<Rightarrow> m_all m))"

text \<open>
  The loop \<open>while ((match = regex.exec(trimmedCommand)) !== null)\<close> of the global regular
  expression: where nothing matches at a position, the search moves one character on.
\<close>

function parts_from :: "string \<Rightarrow> string list" where
  "parts_from [] = []"
| "parts_from (c # cs) =
     (case match_here (c # cs) of
        None \<Rightarrow> parts_from cs
      | Some (m, rest) \<Rightarrow> pushed_part m # parts_from rest)"
  by pat_completeness auto
termination
proof -
  have shorter: "length rest < length s" if "match_here s = Some (m, rest)" for s m rest
  proof (cases s)
    case Nil
    with that show ?thesis by (simp add: match_here_def)
  next
    case (Cons c cs)
    have t: "length (tl (dropWhile P cs)) < Suc (length cs)" for P
      using length_dropWhile_le [of P cs] by simp
    show ?thesis
    proof (cases "is_plain c")
      case True
      with that Cons have "rest = dropWhile is_plain cs" by (simp add: match_here_def)
      with Cons show ?thesis using length_dropWhile_le [of is_plain cs] by simp
    next
      case False
      with that Cons t show ?thesis
        by (auto simp: match_here_def Let_def split: if_splits)
    qed
  qed
  show ?thesis
    by (relation "measure length") (auto dest: shorter)
qed

text \<open>
  \<open>toLowerCase\<close> on code units below 256: the letters A to Z, and the capital letters of
  0xC0 to 0xDE without the multiplication sign 0xD7, move up by 32, which for them is
  setting the bit of value 32.
\<close>

definition lower_char :: "char \<Rightarrow> char" where
  "lower_char c =
     (let n = (of_char c :: nat)
      in if (65 \<le> n \<and> n \<le> 90) \<or> (192 \<le> n \<and> n \<le> 222 \<and> n \<noteq> 215)
         then Char (digit0 c) (digit1 c) (digit2 c) (digit3 c) (digit4 c) True (digit6 c) (digit7 c)
         else c)"

definition toLowerCase :: "string \<Rightarrow> string" where
  "toLowerCase s = map lower_char s"

text \<open>
  \<open>parseCommand\<close>. For a text that is not blank and has no match, \<open>parts[0]\<close> is
  \<open>undefined\<close> and \<open>parts[0].toLowerCase()\<close> raises a TypeError.
\<close>

definition parseCommand :: "string \<Rightarrow> js_error + string \<times> string list" where
  "parseCommand command =
     (let trimmedCommand = str_trim command in
      if trimmedCommand = [] then Inr ([], [])
      else
        (case parts_from trimmedCommand of
           [] \<Rightarrow> Inl TypeError
         | p # ps \<Rightarrow> Inr (toLowerCase p, ps)))"


subsection \<open>processCommand\<close>

text \<open>
  The items of the virtual file system, as far as the terminal reads and writes them. A
  content is missing, a text, or a \<open>Blob\<close> (named here by a tag), which is read
  asynchronously.
\<close>

datatype file_content = NoContent | TextContent string | BlobContent string

record fs_item =
  fi_name :: string
  fi_path :: string
  fi_isDirectory :: bool
  fi_content :: file_content
  fi_icon :: string
  fi_type :: string

text \<open>
  What \<open>processCommand\<close> reads besides the command: the current path and the files of the
  current directory (from \<open>useFileSystem\<close>), the mode flag, the saved command history
  (command and time stamp), the text \<open>now.toLocaleString("en-US", options)\<close> of the
  command \<open>date\<close>, and the local calendar fields \<open>getMonth\<close>, \<open>getDate\<close>, \<open>getHours\<close>,
  \<open>getMinutes\<close> of a time stamp.
\<close>

record terminal_env =
  currentPath :: string
  files :: "fs_item list"
  isInAiMode :: bool
  savedHistory :: "(string \<times> int) list"
  dateText :: string
  localFields :: "int \<Rightarrow> nat \<times> nat \<times> nat \<times> nat"

text \<open>
  The calls \<open>processCommand\<close> makes on its surroundings, in order. Entering the
  assistant mode (the mode flag, the tracking calls, the first messages and the prompt
  sent on) is one effect, and so is entering the editor.
\<close>

datatype effect =
    NavigateToPath string
  | SaveFile fs_item
  | MoveToTrash fs_item
  | LaunchApp string
  | PendingFileOpen string file_content
  | ClearTerminal
  | StopAiResponse
  | OpenAboutDialog
  | EnterVim string string
  | ReadBlobForCat string string
  | ReadBlobForVim string string
  | EnterAiMode "string option"

record cmd_result =
  cr_output :: string
  cr_isError :: bool
  cr_effects :: "effect list"

definition success :: "string \<Rightarrow> effect list \<Rightarrow> cmd_result" where
  "success text es = \<lparr>cr_output = text, cr_isError = False, cr_effects = es\<rparr>"

definition failure :: "string \<Rightarrow> cmd_result" where
  "failure text = \<lparr>cr_output = text, cr_isError = True, cr_effects = []\<rparr>"

definition help_text :: string where
  "help_text = str_join [CHR 0x0A]
     [[],
      ''navigation & files'',
      ''  pwd              show current directory'',
      ''  ls               list directory contents  '',
      ''  cd <dir>         change directory'',
      ''  cat <file>       view file contents'',
      ''  touch <file>     create empty file'',
      ''  mkdir <dir>      create directory'',
      ''  rm <file>        move file to trash'',
      ''  edit <file>      open in text editor'',
      ''  vim <file>       open in vim editor'',
      [],
      ''terminal'',
      ''  clear            clear screen'',
      ''  help             show this help'',
      ''  history          show command history'',
      ''  about            about terminal'',
      ''  echo <text>      display text'',
      ''  whoami           display current user'',
      ''  date             display current date/time'',
      [],
      ''assistant'',
      ''  ryo <prompt>     chat with ryo'',
      [],
      []]"

text \<open>\<open>s.split("/").filter(Boolean)\<close>: the segments of a path that are not empty.\<close>

definition path_parts :: "string \<Rightarrow> string list" where
  "path_parts p = filter (\<lambda>seg. seg \<noteq> []) (str_split (CHR ''/'') p)"

text \<open>\<open>parts.length > 0 ? "/" + parts.join("/") : "/"\<close>\<close>

definition path_of_parts :: "string list \<Rightarrow> string" where
  "path_of_parts parts = (if parts \<noteq> [] then ''/'' @ str_join ''/'' parts else ''/'')"

definition starts_with :: "string \<Rightarrow> string \<Rightarrow> bool" where
  "starts_with s p \<longleftrightarrow> take (length p) s = p"

definition find_file :: "fs_item list \<Rightarrow> string \<Rightarrow> fs_item option" where
  "find_file fs n = List.find (\<lambda>f. fi_name f = n) fs"

text \<open>\<open>file.content || d\<close> for a content that is no \<open>Blob\<close>.\<close>

definition content_or :: "file_content \<Rightarrow> string \<Rightarrow> string" where
  "content_or c d = (case c of TextContent t \<Rightarrow> if t \<noteq> [] then t else d | _ \<Rightarrow> d)"

text \<open>The branch \<open>cd\<close>.\<close>

definition cd_command :: "terminal_env \<Rightarrow> string list \<Rightarrow> cmd_result" where
  "cd_command env args =
     (case args of
        [] \<Rightarrow> success [] [NavigateToPath ''/'']
      | arg0 # _ \<Rightarrow>
          if arg0 = ''..'' then
            (let pathParts = path_parts (currentPath env);
                 parentPath = (if pathParts \<noteq> [] then ''/'' @ str_join ''/'' (butlast pathParts)
                               else ''/'')
             in success [] [NavigateToPath parentPath])
          else
            (let newPath = (if starts_with arg0 ''/'' then arg0
                            else (if currentPath env = ''/'' then [] else currentPath env) @ ''/'' @ arg0);
                 normalizedPath = (if newPath \<noteq> [] \<and> last newPath = CHR ''/'' \<and> newPath \<noteq> ''/''
                                   then butlast newPath else newPath);
                 pathParts = path_parts normalizedPath;
                 targetDir = (if pathParts = [] then None else Some (last pathParts));
                 parentPath = path_of_parts (butlast pathParts)
             in if normalizedPath = ''/'' then success [] [NavigateToPath ''/'']
                else
                  (let parentPathWithSlash =
                         (if last parentPath = CHR ''/'' then parentPath else parentPath @ ''/'');
                       filesInParent = filter (\<lambda>file.
                           starts_with (fi_path file) parentPathWithSlash \<and>
                           CHR ''/'' \<notin> set (drop (length parentPathWithSlash) (fi_path file))) (files env);
                       targetExists = list_ex (\<lambda>file.
                           Some (fi_name file) = targetDir \<and> fi_isDirectory file) filesInParent
                   in if \<not> targetExists then failure (''cd: '' @ arg0 @ '': no such directory'')
                      else success [] [NavigateToPath normalizedPath])))"

text \<open>The branch \<open>cat\<close>.\<close>

definition cat_command :: "terminal_env \<Rightarrow> string list \<Rightarrow> cmd_result" where
  "cat_command env args =
     (case args of
        [] \<Rightarrow> failure ''usage: cat <filename>''
      | fileName # _ \<Rightarrow>
          (case find_file (files env) fileName of
             None \<Rightarrow> failure (''file not found: '' @ fileName)
           | Some file \<Rightarrow>
               if fi_isDirectory file then failure (fileName @ '' is a directory, not a file'')
               else
                 (case fi_content file of
                    BlobContent b \<Rightarrow> success (''Loading '' @ fileName @ ''...'') [ReadBlobForCat fileName b]
                  | c \<Rightarrow> success (content_or c (fileName @ '' is empty'')) [])))"

text \<open>The branches \<open>touch\<close>, \<open>rm\<close>, \<open>edit\<close> and \<open>vim\<close>.\<close>

definition touch_command :: "terminal_env \<Rightarrow> string list \<Rightarrow> cmd_result" where
  "touch_command env args =
     (case args of
        [] \<Rightarrow> failure ''usage: touch <filename>''
      | newFileName # _ \<Rightarrow>
          (case find_file (files env) newFileName of
             Some f \<Rightarrow> failure (''file already exists: '' @ newFileName)
           | None \<Rightarrow>
               success (''created file: '' @ newFileName)
                  [SaveFile \<lparr>fi_name = newFileName, fi_path = currentPath env @ ''/'' @ newFileName,
                             fi_isDirectory = False, fi_content = TextContent [],
                             fi_icon = ''/icons/file-text.png'', fi_type = ''text''\<rparr>]))"

definition rm_command :: "terminal_env \<Rightarrow> string list \<Rightarrow> cmd_result" where
  "rm_command env args =
     (case args of
        [] \<Rightarrow> failure ''usage: rm <filename>''
      | fileToDelete # _ \<Rightarrow>
          (case find_file (files env) fileToDelete of
             None \<Rightarrow> failure (''file not found: '' @ fileToDelete)
           | Some fileObj \<Rightarrow> success (''moved to trash: '' @ fileToDelete) [MoveToTrash fileObj]))"

definition truthy_content :: "file_content \<Rightarrow> file_content" where
  "truthy_content c = (case c of NoContent \<Rightarrow> TextContent [] | _ \<Rightarrow> c)"

definition edit_command :: "terminal_env \<Rightarrow> string list \<Rightarrow> cmd_result" where
  "edit_command env args =
     (case args of
        [] \<Rightarrow> failure ''usage: edit <filename>''
      | fileToEdit # _ \<Rightarrow>
          (case find_file (files env) fileToEdit of
             None \<Rightarrow> failure (''file not found: '' @ fileToEdit)
           | Some fileToEditObj \<Rightarrow>
               if fi_isDirectory fileToEditObj then failure (fileToEdit @ '' is a directory, not a file'')
               else
                 (let inDocuments = starts_with (fi_path fileToEditObj) ''/Documents/'';
                      documentsPath = ''/Documents/'' @ fi_name fileToEditObj;
                      copy = (if inDocuments then []
                              else [SaveFile \<lparr>fi_name = fi_name fileToEditObj, fi_path = documentsPath,
                                               fi_isDirectory = False,
                                               fi_content = fi_content fileToEditObj,
                                               fi_icon = ''/icons/file-text.png'', fi_type = ''text''\<rparr>]);
                      filePath = (if inDocuments then fi_path fileToEditObj else documentsPath)
                  in success (''opening '' @ fileToEdit @ '' in textedit...'')
                        (copy @ [PendingFileOpen filePath (truthy_content (fi_content fileToEditObj)),
                                 LaunchApp ''textedit'']))))"

definition vim_command :: "terminal_env \<Rightarrow> string list \<Rightarrow> cmd_result" where
  "vim_command env args =
     (case args of
        [] \<Rightarrow> failure ''usage: vim <filename>''
      | fileName # _ \<Rightarrow>
          (case find_file (files env) fileName of
             None \<Rightarrow> failure (''file not found: '' @ fileName)
           | Some file \<Rightarrow>
               if fi_isDirectory file then failure (fileName @ '' is a directory, not a file'')
               else
                 (case fi_content file of
                    BlobContent b \<Rightarrow>
                      success (''opening '' @ fileName @ '' in vim...'') [ReadBlobForVim fileName b]
                  | c \<Rightarrow>
                      success (''opening '' @ fileName @ '' in vim...'') [EnterVim fileName (content_or c [])])))"

text \<open>The branch \<open>history\<close>, with \<open>toString\<close>, \<open>padStart\<close> and \<open>padEnd\<close> on what it prints.\<close>

function show_nat :: "nat \<Rightarrow> string" where
  "show_nat n =
     (if n < 10 then [char_of (48 + n)]
      else show_nat (n div 10) @ [char_of (48 + n mod 10)])"
  by pat_completeness auto
termination
  by (relation "measure (\<lambda>n. n)") auto

definition padStart :: "nat \<Rightarrow> char \<Rightarrow> string \<Rightarrow> string" where
  "padStart n c s = replicate (n - length s) c @ s"

definition padEnd :: "nat \<Rightarrow> char \<Rightarrow> string \<Rightarrow> string" where
  "padEnd n c s = s @ replicate (n - length s) c"

definition history_line :: "terminal_env \<Rightarrow> nat \<Rightarrow> nat \<Rightarrow> nat \<Rightarrow> string \<times> int \<Rightarrow> string" where
  "history_line env indexPadding longestCmd idx cmd =
     (case localFields env (snd cmd) of
        (month, day, hours, minutes) \<Rightarrow>
          let indexStr = padStart indexPadding (CHR '' '') (show_nat (idx + 1));
              displayCmd = (if length (fst cmd) > 25 then take 22 (fst cmd) @ ''...'' else fst cmd);
              paddedCmd = padEnd longestCmd (CHR '' '') displayCmd;
              dateStr = padStart 2 (CHR ''0'') (show_nat (month + 1)) @ ''/'' @
                        padStart 2 (CHR ''0'') (show_nat day) @ '' '' @
                        padStart 2 (CHR ''0'') (show_nat hours) @ '':'' @
                        padStart 2 (CHR ''0'') (show_nat minutes)
          in indexStr @ ''  '' @ paddedCmd @ ''  # '' @ dateStr)"

definition history_command :: "terminal_env \<Rightarrow> cmd_result" where
  "history_command env =
     (let cmdHistory = savedHistory env in
      if cmdHistory = [] then success ''no command history'' []
      else
        (let indexPadding = length (show_nat (length cmdHistory));
             longestCmd = min 25 (Max (set (map (\<lambda>cmd. length (fst cmd)) cmdHistory)))
         in success (str_join [CHR 0x0A]
                  (map (\<lambda>(idx, cmd). history_line env indexPadding longestCmd idx cmd)
                       (zip [0 ..< length cmdHistory] cmdHistory))) []))"

text \<open>
  The branch of \<open>ai\<close>, \<open>chat\<close> and \<open>ryo\<close>. The arrow of the second line of the output, one
  code unit beyond 255 in the source, stands here as its three bytes in UTF-8.
\<close>

definition ai_command :: "string list \<Rightarrow> cmd_result" where
  "ai_command args =
     (if args \<noteq> [] then
        (let initialPrompt = str_join '' '' args
         in success (''ask ryo anything. type 'exit' to return to terminal.'' @ [CHR 0x0A] @
                [CHR 0xE2, CHR 0x86, CHR 0x92] @ '' from your command: '' @ initialPrompt)
               [EnterAiMode (Some initialPrompt)])
      else success ''ask ryo anything. type 'exit' to return to terminal.'' [EnterAiMode None])"

text \<open>The \<open>switch\<close> of \<open>processCommand\<close> on the parsed command name.\<close>

definition run_command :: "terminal_env \<Rightarrow> string \<Rightarrow> string list \<Rightarrow> cmd_result" where
  "run_command env cmd args =
     (if cmd = ''help'' then success help_text []
      else if cmd = ''clear'' then
        success [] (ClearTerminal # (if isInAiMode env then [StopAiResponse] else []))
      else if cmd = ''pwd'' then success (currentPath env) []
      else if cmd = ''ls'' then
        (if files env = [] then success ''no files found'' []
         else success (str_join [CHR 0x0A] (map fi_name (files env))) [])
      else if cmd = ''cd'' then cd_command env args
      else if cmd = ''cat'' then cat_command env args
      else if cmd = ''mkdir'' then
        failure ''command not implemented: mkdir requires filesystem write access''
      else if cmd = ''touch'' then touch_command env args
      else if cmd = ''rm'' then rm_command env args
      else if cmd = ''edit'' then edit_command env args
      else if cmd = ''about'' then success ''opening about dialog...'' [OpenAboutDialog]
      else if cmd = ''history'' then history_command env
      else if cmd = ''echo'' then success (str_join '' '' args) []
      else if cmd = ''whoami'' then success ''you'' []
      else if cmd = ''date'' then success (dateText env) []
      else if cmd = ''vim'' then vim_command env args
      else if cmd = ''ai'' \<or> cmd = ''chat'' \<or> cmd = ''ryo'' then ai_command args
      else failure (''command not found: '' @ cmd @ ''. type 'help' for a list of available commands.''))"

definition processCommand :: "terminal_env \<Rightarrow> string \<Rightarrow> js_error + cmd_result" where
  "processCommand env command =
     (case parseCommand command of
        Inl e \<Rightarrow> Inl e
      | Inr (cmd, args) \<Rightarrow> Inr (run_command env cmd args))"

text \<open>The names the \<open>switch\<close> has a case for.\<close>

definition fixed_commands :: "string list" where
  "fixed_commands =
     [''help'', ''clear'', ''pwd'', ''ls'', ''cd'', ''cat'', ''mkdir'', ''touch'', ''rm'', ''edit'',
      ''about'', ''history'', ''echo'', ''whoami'', ''date'', ''vim'', ''ai'', ''chat'', ''ryo'']"

text \<open>A terminal in the directory \<open>/Documents/notes\<close> with one file, for concrete runs.\<close>

definition env0 :: terminal_env where
  "env0 = \<lparr>currentPath = ''/Documents/notes'',
           files = [\<lparr>fi_name = ''a.txt'', fi_path = ''/Documents/notes/a.txt'', fi_isDirectory = False,
                     fi_content = TextContent ''hello'', fi_icon = ''/icons/file-text.png'',
                     fi_type = ''text''\<rparr>],
           isInAiMode = False, savedHistory = [], dateText = [],
           localFields = (\<lambda>t. (0, 1, 0, 0))\<rparr>"


section \<open>Lemmas on strings\<close>

lemma str_split_not_Nil: "str_split c s \<noteq> []"
  by (induction s) simp_all

lemma str_join_split: "str_join [c] (str_split c s) = s"
proof (induction s)
  case Nil
  show ?case by simp
next
  case (Cons x xs)
  obtain l ls where r: "str_split c xs = l # ls"
    using str_split_not_Nil [of c xs] by (cases "str_split c xs") auto
  show ?case
  proof (cases "x = c")
    case True
    with Cons r show ?thesis by simp
  next
    case False
    with Cons r show ?thesis by (cases ls) simp_all
  qed
qed

lemma str_split_no_sep: "l \<in> set (str_split c s) \<Longrightarrow> c \<notin> set l"
proof (induction s arbitrary: l)
  case Nil
  then show ?case by simp
next
  case (Cons x xs)
  obtain k ks where r: "str_split c xs = k # ks"
    using str_split_not_Nil [of c xs] by (cases "str_split c xs") auto
  from Cons r show ?case by (auto split: if_splits)
qed

lemma str_split_append_sep:
  "c \<notin> set l \<Longrightarrow> str_split c (l @ c # s) = l # str_split c s"
  by (induction l) auto

lemma str_split_plain: "c \<notin> set l \<Longrightarrow> str_split c l = [l]"
  by (induction l) auto

lemma str_split_join:
  "ls \<noteq> [] \<Longrightarrow> \<forall>l \<in> set ls. c \<notin> set l \<Longrightarrow> str_split c (str_join [c] ls) = ls"
proof (induction ls)
  case Nil
  then show ?case by simp
next
  case (Cons x xs)
  show ?case
  proof (cases xs)
    case Nil
    with Cons.prems show ?thesis by (simp add: str_split_plain)
  next
    case (Cons y ys)
    with Cons.IH Cons.prems show ?thesis by (simp add: str_split_append_sep)
  qed
qed

section \<open>The line editor: deleting a line\<close>

lemma file_lines_not_Nil: "file_lines f \<noteq> []"
  by (simp add: file_lines_def str_split_not_Nil)

lemma file_lines_set_lines:
  "ls \<noteq> [] \<Longrightarrow> \<forall>l \<in> set ls. CHR 0x0A \<notin> set l \<Longrightarrow> file_lines (set_lines f ls) = ls"
  by (simp add: file_lines_def set_lines_def str_split_join)

lemma file_lines_no_newline: "l \<in> set (file_lines f) \<Longrightarrow> CHR 0x0A \<notin> set l"
  by (simp add: file_lines_def str_split_no_sep)

lemma dd_second_press:
  assumes f: "vimFile st = Some f"
    and k: "fst (lastKeyPress st) = ''d''" "now - snd (lastKeyPress st) < 500"
    and n: "length (file_lines f) > 1" and c: "vimCursorLine st < length (file_lines f)"
  shows "buffer (normal_d now st) =
           Some (take (vimCursorLine st) (file_lines f) @ drop (Suc (vimCursorLine st)) (file_lines f))"
    and "vimClipboard (normal_d now st) = Some (file_lines f ! vimCursorLine st)"
proof -
  let ?ls = "file_lines f" and ?n = "vimCursorLine st"
  let ?new = "take ?n ?ls @ drop (Suc ?n) ?ls"
  have ne: "?new \<noteq> []" using n c by (cases ?ls) (auto simp: take_Suc_conv_app_nth)
  have nl: "\<forall>l \<in> set ?new. CHR 0x0A \<notin> set l"
    by (auto dest!: in_set_takeD in_set_dropD file_lines_no_newline)
  show "buffer (normal_d now st) = Some ?new"
    using f k n file_lines_set_lines [OF ne nl, of f]
    by (simp add: normal_d_def Let_def buffer_def splice_js_def)
  show "vimClipboard (normal_d now st) = Some (?ls ! ?n)"
    using f k n c by (simp add: normal_d_def Let_def arr_get_def)
qed


lemma buffer_not_empty: "buffer st \<noteq> Some []"
  by (cases "vimFile st") (simp_all add: buffer_def file_lines_not_Nil)

text \<open>
  Claim C1, as amended. In normal mode, with a file open whose buffer has more than one
  line and with the cursor on one of its lines, two presses of \<open>d\<close> less than 500 ms apart
  (the first one not itself completing an earlier \<open>dd\<close>) remove exactly the cursor line
  from the array of lines and leave that line in the clipboard.
\<close>

theorem dd_deletes_cursor_line:
  assumes vim: "isInVimMode st" "vimMode st = Normal" "vimFile st = Some f"
    and fresh: "fst (lastKeyPress st) \<noteq> ''d'' \<or> 500 \<le> t1 - snd (lastKeyPress st)"
    and quick: "t2 - t1 < 500"
    and many: "1 < length (file_lines f)"
    and cur: "vimCursorLine st < length (file_lines f)"
  shows "\<exists>st'. vim_edit_run [PressD t1, PressD t2] st = Some (Inr st') \<and>
           buffer st' =
             Some (take (vimCursorLine st) (file_lines f) @ drop (Suc (vimCursorLine st)) (file_lines f)) \<and>
           vimClipboard st' = Some (file_lines f ! vimCursorLine st)"
proof -
  let ?st1 = "st\<lparr>lastKeyPress := (''d'', t1)\<rparr>"
  have first: "normal_d t1 st = ?st1"
    using vim fresh by (auto simp: normal_d_def Let_def)
  have run: "vim_edit_run [PressD t1, PressD t2] st = Some (Inr (normal_d t2 ?st1))"
    using vim first by simp
  have "vimFile ?st1 = Some f" "fst (lastKeyPress ?st1) = ''d''"
    "t2 - snd (lastKeyPress ?st1) < 500" "vimCursorLine ?st1 < length (file_lines f)"
    using vim quick cur by simp_all
  from dd_second_press [OF this(1) this(2) this(3) many this(4)] run
  show ?thesis by simp
qed

theorem dd_deletes_cursor_line_witness:
  "vim_edit_run [PressD 1000, PressD 1100] (vim_open ''f'' (''a'' @ [CHR 0x0A] @ ''b'')) =
     Some (Inr ((vim_open ''f'' ''b'')\<lparr>vimClipboard := Some ''a''\<rparr>)) \<and>
   buffer (vim_open ''f'' (''a'' @ [CHR 0x0A] @ ''b'')) = Some [''a'', ''b''] \<and>
   buffer ((vim_open ''f'' ''b'')\<lparr>vimClipboard := Some ''a''\<rparr>) = Some [''b'']"
  using dd_deletes_cursor_line [of "vim_open ''f'' (''a'' @ [CHR 0x0A] @ ''b'')"
      "\<lparr>vf_name = ''f'', vf_content = ''a'' @ [CHR 0x0A] @ ''b''\<rparr>" 1000 1100]
  by (simp add: vim_open_def file_lines_def buffer_def normal_d_def Let_def set_lines_def
      splice_js_def arr_get_def)

text \<open>
  Claim C1 as stated fails on a buffer of one line. There \<open>dd\<close> does not delete the
  line: the buffer still has one line, the empty one, where deleting the cursor line
  would leave none.
\<close>

theorem dd_single_line_counterexample:
  "vim_edit_run [PressD 1000, PressD 1100] (vim_open ''f'' ''a'') =
     Some (Inr ((vim_open ''f'' [])\<lparr>vimClipboard := Some ''a''\<rparr>)) \<and>
   buffer (vim_open ''f'' ''a'') = Some [''a''] \<and>
   buffer ((vim_open ''f'' [])\<lparr>vimClipboard := Some ''a''\<rparr>) = Some [[]] \<and>
   buffer ((vim_open ''f'' [])\<lparr>vimClipboard := Some ''a''\<rparr>) \<noteq>
     Some (take 0 [''a''] @ drop (Suc 0) [''a''])"
  by (simp add: vim_open_def normal_d_def Let_def buffer_def file_lines_def set_lines_def arr_get_def)

text \<open>
  Claim C8. Every editing step of the editor leaves a buffer of at least one line; and
  \<open>dd\<close> on a buffer of exactly one line keeps the line, empties it and copies its old
  content to the clipboard. (A step that raises changes no state: the TypeError of
  Backspace comes before the first state setter.)
\<close>

theorem vim_edit_keeps_a_line:
  assumes step: "vim_edit_step e st = Some (Inr st')"
  shows "(\<forall>ls. buffer st' = Some ls \<longrightarrow> 1 \<le> length ls) \<and>
         (\<forall>l now. buffer st = Some [l] \<and> e = PressD now \<and> fst (lastKeyPress st) = ''d'' \<and>
              now - snd (lastKeyPress st) < 500 \<longrightarrow>
            buffer st' = Some [[]] \<and> vimClipboard st' = Some l)"
proof (intro conjI allI impI)
  fix ls assume "buffer st' = Some ls"
  then show "1 \<le> length ls"
    using buffer_not_empty [of st'] by (cases ls) auto
next
  fix l now
  assume a: "buffer st = Some [l] \<and> e = PressD now \<and> fst (lastKeyPress st) = ''d'' \<and>
              now - snd (lastKeyPress st) < 500"
  then obtain f where f: "vimFile st = Some f" "file_lines f = [l]"
    by (auto simp: buffer_def)
  from a step have st': "st' = normal_d now st"
    by (auto split: if_splits)
  have "file_lines (set_lines f [[]]) = [[]]"
    by (rule file_lines_set_lines) simp_all
  with a f st' show "buffer st' = Some [[]]"
    by (simp add: normal_d_def Let_def buffer_def)
  from a f st' show "vimClipboard st' = Some l"
    by (simp add: normal_d_def Let_def arr_get_def)
qed

theorem vim_edit_keeps_a_line_witness:
  "vim_edit_step (PressD 1100) ((vim_open ''f'' ''a'')\<lparr>lastKeyPress := (''d'', 1000)\<rparr>) =
     Some (Inr ((vim_open ''f'' [])\<lparr>vimClipboard := Some ''a''\<rparr>)) \<and>
   buffer ((vim_open ''f'' ''a'')\<lparr>lastKeyPress := (''d'', 1000)\<rparr>) = Some [''a''] \<and>
   buffer ((vim_open ''f'' [])\<lparr>vimClipboard := Some ''a''\<rparr>) = Some [[]] \<and>
   vimClipboard ((vim_open ''f'' [])\<lparr>vimClipboard := Some ''a''\<rparr>) = Some ''a''"
proof -
  have s: "vim_edit_step (PressD 1100) ((vim_open ''f'' ''a'')\<lparr>lastKeyPress := (''d'', 1000)\<rparr>) =
     Some (Inr ((vim_open ''f'' [])\<lparr>vimClipboard := Some ''a''\<rparr>))"
    by (simp add: vim_open_def normal_d_def Let_def file_lines_def set_lines_def arr_get_def)
  have b: "buffer ((vim_open ''f'' ''a'')\<lparr>lastKeyPress := (''d'', 1000)\<rparr>) = Some [''a'']"
    by (simp add: vim_open_def buffer_def file_lines_def)
  from vim_edit_keeps_a_line [OF s] b s show ?thesis
    by (simp add: vim_open_def)
qed


section \<open>The room messages\<close>

lemma no_nan_iff: "no_nan ms \<longleftrightarrow> (\<forall>m \<in> set ms. msg_timestamp m \<noteq> NaN)"
  by (simp add: no_nan_def list_all_iff)

lemma sorted_by_timestamp_keys:
  assumes "no_nan ms"
  shows "sorted_by_timestamp ms \<longleftrightarrow> sorted (map (\<lambda>m. ts_key (msg_timestamp m)) ms)"
proof -
  have "sorted_wrt (\<lambda>a b. num_le (msg_timestamp a) (msg_timestamp b)) ms \<longleftrightarrow>
        sorted_wrt (\<lambda>a b. ts_key (msg_timestamp a) \<le> ts_key (msg_timestamp b)) ms"
    using assms
    by (auto simp: no_nan_iff num_le_def elim!: sorted_wrt_mono_rel [rotated])
  then show ?thesis by (simp add: sorted_by_timestamp_def sorted_map)
qed

lemma no_nan_stable: "no_nan (stable_by_timestamp ms) = no_nan ms"
  by (simp add: no_nan_iff stable_by_timestamp_def)

lemma in_time_order_sort:
  assumes "sort_conforms sortFn" "no_nan ms"
  shows "in_time_order (sortFn ms)"
proof -
  from assms have eq: "sortFn ms = stable_by_timestamp ms" by (simp add: sort_conforms_def)
  have n: "no_nan (stable_by_timestamp ms)" using assms(2) by (simp add: no_nan_stable)
  have "sorted (map (\<lambda>m. ts_key (msg_timestamp m)) (stable_by_timestamp ms))"
    by (simp add: stable_by_timestamp_def)
  with n eq show ?thesis by (simp add: in_time_order_def sorted_by_timestamp_keys)
qed

lemma in_time_order_filter: "in_time_order ms \<Longrightarrow> in_time_order (filter P ms)"
  by (auto simp: in_time_order_def no_nan_iff sorted_by_timestamp_def sorted_wrt_filter)

lemma in_time_order_Nil: "in_time_order []"
  by (simp add: in_time_order_def no_nan_def sorted_by_timestamp_def)

lemma reference_sort_conforms: "sort_conforms reference_sort"
  by (simp add: sort_conforms_def reference_sort_def stable_by_timestamp_def)

text \<open>
  Claim C3, at a message event for the room the user has selected after the hook was
  mounted. The ref still holds \<open>null\<close>, because the effect that writes it ("Update the ref
  whenever currentRoom changes") does not run again when only the room changes; the
  handler is bound, the list has no message of the incoming id, and the message is
  dropped instead of appended.
\<close>

theorem stale_room_ref_drops_message:
  "currentRoomIdRef hook_room_selected = None \<and> handlerBound hook_room_selected \<and>
   roomMessages (hookChat hook_room_selected) = [] \<and>
   roomMessages (hookChat (room_message_event reference_sort no_date ''r1'' msgA hook_room_selected)) = []"
  by (simp add: hook_room_selected_def hook0_def render_hook_def pusher_effect_def
      room_message_event_def handleRoomMessage_def chat0_def Let_def)

text \<open>
  Where the ref does name the room of the event and the time stamps are numbers, the
  handler does what the claim says: a message of an id already in the list leaves the
  list unchanged; otherwise the new list has the messages of the old one and the new
  message, is in order of timestamp, and keeps the order of messages of equal timestamp.
\<close>

lemma incoming_message_merged:
  assumes room: "currentRoomId = Some r" "r \<noteq> []" "roomId = r"
    and conf: "sort_conforms sortFn"
    and valid: "no_nan (roomMessages st)" "received_time parseDate (w_timestamp message) \<noteq> NaN"
  shows "(list_ex (\<lambda>msg. msg_id msg = w_id message) (roomMessages st) \<longrightarrow>
            roomMessages (handleRoomMessage sortFn parseDate currentRoomId roomId message st) = roomMessages st) \<and>
         (\<not> list_ex (\<lambda>msg. msg_id msg = w_id message) (roomMessages st) \<longrightarrow>
            (let new = roomMessages (handleRoomMessage sortFn parseDate currentRoomId roomId message st);
                 appended = roomMessages st @ [with_time (received_time parseDate (w_timestamp message)) message]
             in mset new = mset appended \<and> in_time_order new \<and>
                (\<forall>k. filter (\<lambda>m. ts_key (msg_timestamp m) = k) new =
                     filter (\<lambda>m. ts_key (msg_timestamp m) = k) appended)))"
proof -
  let ?app = "roomMessages st @ [with_time (received_time parseDate (w_timestamp message)) message]"
  have n: "no_nan ?app" using valid by (simp add: no_nan_iff with_time_def)
  with conf have eq: "sortFn ?app = stable_by_timestamp ?app" by (simp add: sort_conforms_def)
  have ord: "in_time_order (sortFn ?app)" using conf n by (rule in_time_order_sort)
  have st: "filter (\<lambda>m. ts_key (msg_timestamp m) = k) (stable_by_timestamp ?app) =
            filter (\<lambda>m. ts_key (msg_timestamp m) = k) ?app" for k
    unfolding stable_by_timestamp_def by (rule sort_key_stable)
  have ms: "mset (sortFn ?app) = mset ?app" using conf by (simp add: sort_conforms_def)
  show ?thesis
    using room ord ms st eq
    by (simp add: handleRoomMessage_def Let_def)
qed

text \<open>
  Claim C6. When the request fails (the chain rejects, or the body has no message), the
  callbacks send no further request, write one line with \<open>console.error\<close>, and remove the
  pending message from the list; nothing is added to the list.
\<close>

theorem send_failure_no_retry:
  assumes fail: "outcome = Rejected e \<or> outcome = Body None err"
  shows "(let st' = handleSendSettled sortFn parseDate tempId room outcome st
          in roomMessages st' = filter (\<lambda>msg. msg_id msg \<noteq> tempId) (roomMessages st) \<and>
             sentRequests st' = sentRequests st \<and>
             (\<exists>text. consoleErrors st' = consoleErrors st @ [(''Error sending room message:'', text)]))"
  using fail by (auto simp: handleSendSettled_def Let_def split: option.splits)

theorem send_failure_no_retry_witness:
  "roomMessages (handleSendSettled reference_sort no_date ''tmp'' ''r1'' (Rejected ''Failed to fetch'')
      (handleSubmit reference_sort ''tmp'' 30 (Some ''r1'') (Some ''ann'') (chat0\<lparr>input := ''hello''\<rparr>))) = [] \<and>
   length (sentRequests (handleSendSettled reference_sort no_date ''tmp'' ''r1'' (Rejected ''Failed to fetch'')
      (handleSubmit reference_sort ''tmp'' 30 (Some ''r1'') (Some ''ann'') (chat0\<lparr>input := ''hello''\<rparr>)))) = 1 \<and>
   consoleErrors (handleSendSettled reference_sort no_date ''tmp'' ''r1'' (Rejected ''Failed to fetch'')
      (handleSubmit reference_sort ''tmp'' 30 (Some ''r1'') (Some ''ann'') (chat0\<lparr>input := ''hello''\<rparr>))) =
     [(''Error sending room message:'', ''Failed to fetch'')]"
  using send_failure_no_retry [of "Rejected ''Failed to fetch''" "''Failed to fetch''" None reference_sort
      no_date "''tmp''" "''r1''"
      "handleSubmit reference_sort ''tmp'' 30 (Some ''r1'') (Some ''ann'') (chat0\<lparr>input := ''hello''\<rparr>)"]
  by (simp add: handleSendSettled_def handleSubmit_def Let_def reference_sort_def
      stable_by_timestamp_def chat0_def str_trim_def is_space_def)

text \<open>
  Claim C9, as amended. With a conforming \<open>sort\<close>, and as long as no time stamp is
  \<open>NaN\<close> (not in the list, not that of the incoming message, of the confirmed message or
  of a fetched message), a list in order of timestamp is in order again after a message
  event, after \<open>handleSubmit\<close> has appended the pending message, after the request has
  ended (confirmed or not), and after fetched messages have been loaded.
\<close>

theorem room_messages_stay_sorted:
  assumes conf: "sort_conforms sortFn"
    and inv: "in_time_order (roomMessages st)"
    and incoming: "received_time parseDate (w_timestamp message) \<noteq> NaN"
    and confirmed: "\<forall>m err. outcome = Body (Some m) err \<longrightarrow> date_time parseDate (w_timestamp m) \<noteq> NaN"
    and fetched: "\<forall>m \<in> set messages. received_time parseDate (w_timestamp m) \<noteq> NaN"
  shows "in_time_order (roomMessages (handleRoomMessage sortFn parseDate currentRoomId roomId message st)) \<and>
         in_time_order (roomMessages (handleSubmit sortFn tempId now room username st)) \<and>
         in_time_order (roomMessages (handleSendSettled sortFn parseDate tempId room' outcome st)) \<and>
         in_time_order (roomMessages (fetch_settle sortFn parseDate room' cachedMessages (Fetched messages) st))"
proof (intro conjI)
  from inv have nn: "no_nan (roomMessages st)" by (simp add: in_time_order_def)
  note srt = in_time_order_sort [OF conf]
  show "in_time_order (roomMessages (handleRoomMessage sortFn parseDate currentRoomId roomId message st))"
  proof -
    have "no_nan (roomMessages st @ [with_time (received_time parseDate (w_timestamp message)) message])"
      using nn incoming by (simp add: no_nan_iff with_time_def)
    from srt [OF this] inv show ?thesis
      by (simp add: handleRoomMessage_def Let_def split: option.splits)
  qed
  show "in_time_order (roomMessages (handleSubmit sortFn tempId now room username st))"
  proof -
    have "no_nan (roomMessages st @ [\<lparr>msg_id = tempId, msg_roomId = r, msg_username = u,
             msg_content = c, msg_timestamp = Fin (of_int now), msg_isPending = True\<rparr>])" for r u c
      using nn by (simp add: no_nan_iff)
    from srt [OF this] inv show ?thesis
      by (simp add: handleSubmit_def Let_def split: option.splits)
  qed
  show "in_time_order (roomMessages (handleSendSettled sortFn parseDate tempId room' outcome st))"
  proof (cases outcome)
    case (Rejected e)
    with inv show ?thesis
      by (simp add: handleSendSettled_def Let_def in_time_order_filter)
  next
    case (Body mo err)
    show ?thesis
    proof (cases mo)
      case None
      with Body inv show ?thesis
        by (simp add: handleSendSettled_def Let_def in_time_order_filter)
    next
      case (Some m)
      with Body confirmed have v: "date_time parseDate (w_timestamp m) \<noteq> NaN" by simp
      have a: "no_nan (map (\<lambda>msg. if msg_id msg = tempId
                 then with_time (date_time parseDate (w_timestamp m)) m else msg) (roomMessages st))"
        using nn v by (auto simp: no_nan_iff with_time_def)
      have b: "no_nan (filter (\<lambda>msg. msg_id msg \<noteq> tempId) (roomMessages st))"
        using nn by (auto simp: no_nan_iff)
      from srt [OF a] srt [OF b] Body Some show ?thesis
        by (simp add: handleSendSettled_def Let_def)
    qed
  qed
  show "in_time_order (roomMessages (fetch_settle sortFn parseDate room' cachedMessages (Fetched messages) st))"
  proof -
    have "no_nan (map (\<lambda>msg. with_time (received_time parseDate (w_timestamp msg)) msg) messages)"
      using fetched by (auto simp: no_nan_iff with_time_def)
    from srt [OF this] inv in_time_order_Nil show ?thesis
      by (simp add: fetch_settle_def Let_def)
  qed
qed


text \<open>A list of two or more messages that is in order has no \<open>NaN\<close> among its time stamps.\<close>

lemma sorted_needs_numbers:
  assumes "sorted_by_timestamp ms" "2 \<le> length ms"
  shows "no_nan ms"
proof -
  have "msg_timestamp m \<noteq> NaN" if "m \<in> set ms" for m
  proof -
    from that obtain i where i: "i < length ms" "ms ! i = m" by (auto simp: in_set_conv_nth)
    from assms(2) i obtain j where j: "j < length ms" "j \<noteq> i"
      by (cases "i = 0") (auto intro: that [of 1] that [of 0])
    from assms(1) have all: "\<And>a b. a < b \<Longrightarrow> b < length ms \<Longrightarrow>
        num_le (msg_timestamp (ms ! a)) (msg_timestamp (ms ! b))"
      by (simp add: sorted_by_timestamp_def sorted_wrt_iff_nth_less)
    from j i all [of i j] all [of j i] show ?thesis
      by (cases "i < j") (auto simp: num_le_def)
  qed
  then show ?thesis by (simp add: no_nan_iff)
qed

text \<open>
  A confirmation whose time stamp is no date puts a \<open>NaN\<close> into a list of two messages:
  in whatever order the engine's \<open>sort\<close> leaves them, the list is not in order.
\<close>

lemma nan_confirmation_any_engine:
  assumes "\<forall>ms. mset (sortFn ms) = mset ms"
  shows "\<not> sorted_by_timestamp (roomMessages (handleSendSettled sortFn no_date ''tmp'' ''r1''
           (Body (Some msgSrv) None) (chat0\<lparr>roomMessages := [shownA, pendingTmp]\<rparr>)))"
proof
  let ?upd = "[shownA, with_time NaN msgSrv]"
  assume s: "sorted_by_timestamp (roomMessages (handleSendSettled sortFn no_date ''tmp'' ''r1''
           (Body (Some msgSrv) None) (chat0\<lparr>roomMessages := [shownA, pendingTmp]\<rparr>)))"
  have r: "roomMessages (handleSendSettled sortFn no_date ''tmp'' ''r1''
           (Body (Some msgSrv) None) (chat0\<lparr>roomMessages := [shownA, pendingTmp]\<rparr>)) = sortFn ?upd"
    by (simp add: handleSendSettled_def Let_def chat0_def shownA_def pendingTmp_def msgSrv_def
        msgA_def with_time_def date_time_def no_date_def)
  from assms have m: "mset (sortFn ?upd) = mset ?upd" by blast
  then have "length (sortFn ?upd) = 2" using mset_eq_length by fastforce
  with s r have "no_nan (sortFn ?upd)" by (simp add: sorted_needs_numbers)
  moreover from m have "set (sortFn ?upd) = set ?upd" by (rule mset_eq_setD)
  ultimately show False by (simp add: no_nan_iff with_time_def)
qed

text \<open>
  Claim C9 as stated fails: the list \<open>[a (20), tmp (30, pending)]\<close> is in order, the
  confirmation of \<open>tmp\<close> carries the time stamp \<open>"soon"\<close>, and the list after the
  replacement is not in order.
\<close>

theorem nan_confirmation_counterexample:
  "in_time_order (roomMessages (chat0\<lparr>roomMessages := [shownA, pendingTmp]\<rparr>)) \<and>
   date_time no_date (w_timestamp msgSrv) = NaN \<and>
   \<not> sorted_by_timestamp (roomMessages (handleSendSettled reference_sort no_date ''tmp'' ''r1''
        (Body (Some msgSrv) None) (chat0\<lparr>roomMessages := [shownA, pendingTmp]\<rparr>)))"
proof -
  have "\<forall>ms. mset (reference_sort ms) = mset ms"
    by (simp add: reference_sort_def stable_by_timestamp_def)
  from nan_confirmation_any_engine [OF this] show ?thesis
    by (simp add: in_time_order_def no_nan_def sorted_by_timestamp_def num_le_def chat0_def
        shownA_def pendingTmp_def with_time_def date_time_def no_date_def msgSrv_def)
qed

theorem room_messages_stay_sorted_witness:
  "in_time_order (roomMessages (chat0\<lparr>roomMessages := [shownA]\<rparr>)) \<and>
   roomMessages (handleRoomMessage reference_sort no_date (Some ''r1'') ''r1'' msgB
     (chat0\<lparr>roomMessages := [shownA]\<rparr>)) = [shownB, shownA] \<and>
   in_time_order [shownB, shownA] \<and>
   in_time_order (roomMessages (handleSendSettled reference_sort no_date ''tmp'' ''r1''
     (Body (Some msgB) None) (chat0\<lparr>roomMessages := [shownA]\<rparr>)))"
proof -
  let ?st = "chat0\<lparr>roomMessages := [shownA]\<rparr>"
  have inv: "in_time_order (roomMessages ?st)"
    by (simp add: in_time_order_def no_nan_def sorted_by_timestamp_def shownA_def with_time_def)
  have inc: "received_time no_date (w_timestamp msgB) \<noteq> NaN"
    by (simp add: received_time_def msgB_def)
  have con: "\<forall>m err. Body (Some msgB) None = Body (Some m) err \<longrightarrow>
      date_time no_date (w_timestamp m) \<noteq> NaN"
    by (simp add: date_time_def time_clip_def msgB_def)
  have fet: "\<forall>m \<in> set [msgB]. received_time no_date (w_timestamp m) \<noteq> NaN"
    by (simp add: received_time_def msgB_def)
  have v: "roomMessages (handleRoomMessage reference_sort no_date (Some ''r1'') ''r1'' msgB ?st) =
      [shownB, shownA]"
    by (simp add: handleRoomMessage_def Let_def reference_sort_def stable_by_timestamp_def
        shownA_def shownB_def with_time_def received_time_def msgA_def msgB_def chat0_def)
  from room_messages_stay_sorted [OF reference_sort_conforms inv inc con fet,
      of "Some ''r1''" "''r1''" "''tmp''" 30 "Some ''r1''" "Some ''ann''" "''r1''" None] inv v
  show ?thesis by simp
qed

text \<open>
  The same event is merged when the room was already selected at the first render, the
  ref then naming it.
\<close>

lemma current_room_ref_merges:
  "roomMessages (hookChat (room_message_event reference_sort no_date ''r1'' msgA
     (render_hook \<lparr>currentRoom = Some ''r1'', isWindowOpen = True, isForeground = True\<rparr> hook0))) =
   [shownA]"
  by (simp add: hook0_def render_hook_def pusher_effect_def room_message_event_def
      handleRoomMessage_def chat0_def Let_def reference_sort_def stable_by_timestamp_def
      shownA_def with_time_def received_time_def msgA_def)

text \<open>
  The messages of the cache are shown as they are stored, at the start of the loading
  and after a failed fetch: those steps do not sort.
\<close>

lemma cached_messages_shown_as_stored:
  "c \<noteq> [] \<Longrightarrow> roomMessages (fetch_begin (Some c) st) = c"
  by (simp add: fetch_begin_def has_cache_def)

lemma unsorted_cache_is_shown:
  "roomMessages (fetch_begin (Some [shownA, shownB]) chat0) = [shownA, shownB] \<and>
   \<not> sorted_by_timestamp [shownA, shownB] \<and>
   roomMessages (fetch_settle reference_sort no_date ''r1'' (Some [shownA, shownB])
     (FetchFailed ''offline'') chat0) = [shownA, shownB]"
  by (simp add: fetch_begin_def fetch_settle_def has_cache_def sorted_by_timestamp_def num_le_def
      shownA_def shownB_def with_time_def chat0_def)

section \<open>The email data editor\<close>

lemma array_check: "get_prop d k = Inr v \<Longrightarrow> (truthy v \<and> isArray v) = has_array d k"
  by (cases d; cases v rule: isArray.cases) (auto simp: has_array_def split: option.splits json.splits)

lemma object_check:
  "get_prop d k = Inr v \<Longrightarrow> (truthy v \<and> js_typeof v = ''object'') = has_object d k"
  by (cases d; cases v rule: js_typeof.cases) (auto simp: has_object_def split: option.splits json.splits)

lemma get_prop_null: "get_prop d k = Inl e \<Longrightarrow> \<not> has_array d k \<and> \<not> has_object d k"
  by (cases d) (auto simp: has_array_def has_object_def)

text \<open>
  Claim C7. \<open>handleSave\<close> calls \<open>onSave\<close>, with the parsed value, exactly when the text
  parses and the parsed value has arrays as \<open>emails\<close>, \<open>threads\<close> and \<open>labels\<close> and an
  object as \<open>user\<close> (an object in JavaScript's sense, which an array is too). In every
  other case \<open>onSave\<close> is not called and the error shown is a string: the message of the
  parser's SyntaxError, the message of the TypeError for a parsed \<open>null\<close>, or the message
  of the first failing check.
\<close>

theorem handleSave_checks:
  "(let st' = handleSave JSON_parse nullReadMessage st in
    case JSON_parse (jsonData st) of
      Inl syntaxErrorMessage \<Rightarrow>
        onSaveCalls st' = onSaveCalls st \<and> editorError st' = Some syntaxErrorMessage
    | Inr parsedData \<Rightarrow>
        if valid_email_data parsedData then
          onSaveCalls st' = onSaveCalls st @ [parsedData] \<and> editorError st' = None
        else
          onSaveCalls st' = onSaveCalls st \<and>
          (\<exists>message \<in> set (nullReadMessage # check_messages). editorError st' = Some message))"
proof (cases "JSON_parse (jsonData st)")
  case (Inl m)
  then show ?thesis by (simp add: handleSave_def)
next
  case (Inr d)
  show ?thesis
  proof (cases "get_prop d ''emails''")
    case (Inl e)
    then have "d = JNull" by (cases d) auto
    with Inr show ?thesis
      by (simp add: handleSave_def valid_email_data_def has_array_def)
  next
    case e: (Inr emails)
    then obtain threads labels user where p: "get_prop d ''threads'' = Inr threads"
      "get_prop d ''labels'' = Inr labels" "get_prop d ''user'' = Inr user"
      by (cases d) auto
    note c = array_check [OF e] array_check [OF p(1)] array_check [OF p(2)] object_check [OF p(3)]
    show ?thesis
      using Inr e p c
      by (auto simp: handleSave_def valid_email_data_def check_messages_def Let_def)
  qed
qed

theorem handleSave_checks_witness:
  "onSaveCalls (handleSave parse_sample ''null''
      \<lparr>jsonData = sample_good, editorError = Some ''old'', onSaveCalls = []\<rparr>) =
     [JObject [(''emails'', JArray []), (''threads'', JArray []), (''labels'', JArray []),
               (''user'', JObject [])]] \<and>
   editorError (handleSave parse_sample ''null''
      \<lparr>jsonData = sample_good, editorError = Some ''old'', onSaveCalls = []\<rparr>) = None \<and>
   onSaveCalls (handleSave parse_sample ''null''
      \<lparr>jsonData = sample_bad, editorError = None, onSaveCalls = []\<rparr>) = [] \<and>
   editorError (handleSave parse_sample ''null''
      \<lparr>jsonData = sample_bad, editorError = None, onSaveCalls = []\<rparr>) =
     Some ''Invalid data: 'emails' must be an array''"
  using handleSave_checks [of parse_sample "''null''"
      "\<lparr>jsonData = sample_good, editorError = Some ''old'', onSaveCalls = []\<rparr>"]
    handleSave_checks [of parse_sample "''null''"
      "\<lparr>jsonData = sample_bad, editorError = None, onSaveCalls = []\<rparr>"]
  by (simp add: handleSave_def parse_sample_def sample_good_def sample_bad_def quoted_def)


section \<open>Applying edits to a document\<close>

lemma out_of_range_invalid: "out_of_range edit lines = invalid_edit edit lines"
  by (cases "e_type edit") (auto simp: out_of_range_def invalid_edit_def Let_def)

lemma map_checked_Some_iff: "map_checked f xs = Some ys \<longleftrightarrow> map f xs = map Some ys"
proof (induction xs arbitrary: ys)
  case Nil
  then show ?case by auto
next
  case (Cons x xs)
  show ?case
  proof (cases "f x")
    case None
    then show ?thesis by (cases ys) auto
  next
    case (Some y)
    with Cons show ?thesis by (cases ys) (auto split: option.splits)
  qed
qed

lemma map_checked_remove:
  assumes "map_checked f xs = Some ys"
  shows "map_checked f (take j xs @ drop (Suc j) xs) = Some (take j ys @ drop (Suc j) ys)"
proof -
  from assms have "map f xs = map Some ys" by (simp add: map_checked_Some_iff)
  then have "take j (map f xs) @ drop (Suc j) (map f xs) =
             take j (map Some ys) @ drop (Suc j) (map Some ys)"
    by simp
  then have "map f (take j xs @ drop (Suc j) xs) = map Some (take j ys @ drop (Suc j) ys)"
    by (simp add: take_map drop_map)
  then show ?thesis by (simp add: map_checked_Some_iff)
qed

lemma edit_turn_remove:
  assumes "edit_turn edit lines rest = Some (newLines, later)"
  shows "edit_turn edit lines (take j rest @ drop (Suc j) rest) =
           Some (newLines, take j later @ drop (Suc j) later)"
  using assms
  by (auto simp: edit_turn_def map_checked_remove split: if_splits option.splits prod.splits)

lemma edit_turn_length:
  "edit_turn edit lines rest = Some (newLines, later) \<Longrightarrow> length later = length rest"
  by (auto simp: edit_turn_def map_checked_Some_iff dest!: arg_cong [where f = length]
      split: if_splits option.splits prod.splits)

lemma apply_loop_skip:
  "reached lines es i = Some (ls, e) \<Longrightarrow> invalid_edit e ls \<Longrightarrow>
   apply_loop lines es = apply_loop lines (take i es @ drop (Suc i) es)"
proof (induction "length es" arbitrary: es lines i)
  case 0
  then show ?case by simp
next
  case (Suc n)
  then obtain edit rest where es: "es = edit # rest" by (cases es) auto
  show ?case
  proof (cases i)
    case 0
    with Suc.prems es show ?thesis by (simp add: edit_turn_def)
  next
    case j: (Suc j)
    with Suc.prems es obtain newLines later where
      turn: "edit_turn edit lines rest = Some (newLines, later)"
      and r: "reached newLines later j = Some (ls, e)"
      by (auto split: option.splits)
    from turn have "length later = length rest" by (rule edit_turn_length)
    with Suc.hyps(2) es have "n = length later" by simp
    from Suc.hyps(1) [OF this r Suc.prems(2)]
    have "apply_loop newLines later = apply_loop newLines (take j later @ drop (Suc j) later)" .
    with turn edit_turn_remove [OF turn, of j] es j show ?thesis by simp
  qed
qed

lemma filter_key_sort: "filter (\<lambda>y. k = f y) (sort_key f zs) = filter (\<lambda>y. k = f y) zs"
proof -
  have "(\<lambda>y. k = f y) = (\<lambda>y. f y = k)" by auto
  then show ?thesis by (simp add: sort_key_stable)
qed

lemma key_pred_simps:
  fixes f :: "'a \<Rightarrow> int"
  shows "f k < f x \<Longrightarrow> (\<lambda>y. f y < f x \<and> f k = f y) = (\<lambda>y. f k = f y)"
    and "f x < f k \<Longrightarrow> (\<lambda>y. f x < f y \<and> f k = f y) = (\<lambda>y. f k = f y)"
    and "(\<lambda>y. f y = f x) = (\<lambda>y. f x = f y)"
  by auto

lemma sort_key_around:
  fixes f :: "'a \<Rightarrow> int"
  defines "L pre x post \<equiv> sort_key f (filter (\<lambda>y. f y < f x) (pre @ post)) @ filter (\<lambda>y. f y = f x) pre"
    and "R pre x post \<equiv> filter (\<lambda>y. f y = f x) post @ sort_key f (filter (\<lambda>y. f y > f x) (pre @ post))"
  shows "sort_key f (pre @ x # post) = L pre x post @ x # R pre x post"
    and "sort_key f (pre @ post) = L pre x post @ R pre x post"
proof -
  show "sort_key f (pre @ x # post) = L pre x post @ x # R pre x post"
  proof (rule properties_for_sort_key)
    show "mset (L pre x post @ x # R pre x post) = mset (pre @ x # post)"
      unfolding L_def R_def by (rule multiset_eqI) auto
    show "sorted (map f (L pre x post @ x # R pre x post))"
      unfolding L_def R_def by (auto simp: sorted_append intro: sorted_map_same)
  next
    fix k assume "k \<in> set (L pre x post @ x # R pre x post)"
    show "filter (\<lambda>y. f k = f y) (L pre x post @ x # R pre x post) = filter (\<lambda>y. f k = f y) (pre @ x # post)"
      unfolding L_def R_def
      by (cases "f k" "f x" rule: linorder_cases)
        (simp_all add: filter_key_sort key_pred_simps cong: conj_cong)
  qed
  show "sort_key f (pre @ post) = L pre x post @ R pre x post"
  proof (rule properties_for_sort_key)
    show "mset (L pre x post @ R pre x post) = mset (pre @ post)"
      unfolding L_def R_def by (rule multiset_eqI) auto
    show "sorted (map f (L pre x post @ R pre x post))"
      unfolding L_def R_def by (auto simp: sorted_append intro: sorted_map_same)
  next
    fix k assume "k \<in> set (L pre x post @ R pre x post)"
    show "filter (\<lambda>y. f k = f y) (L pre x post @ R pre x post) = filter (\<lambda>y. f k = f y) (pre @ post)"
      unfolding L_def R_def
      by (cases "f k" "f x" rule: linorder_cases)
        (simp_all add: filter_key_sort key_pred_simps cong: conj_cong)
  qed
qed

text \<open>
  Claim C10, as amended. Take an edit of a list of edits with numbers of size up to
  \<open>2^53\<close>, and the moment the loop reaches it, in its place in the order of processing.
  If its line number, as adjusted by the loop so far, is then out of range for the lines
  as they then are (an insert below line 1 or beyond the line after the last, a replace
  or delete below line 1 or beyond the last line), the result is the result for the list
  without that edit. With no edits the content is returned as it is.
\<close>

theorem out_of_range_edit_ignored:
  assumes nums: "list_all exact_edit (earlier @ edit # later)"
    and reach: "reached (str_split (CHR 0x0A) content) (sort_key e_line (earlier @ edit # later))
                    (place_in_order earlier edit later) = Some (lines, edit')"
    and out: "out_of_range edit' lines"
  shows "applyTextEditChanges content (earlier @ edit # later) =
           applyTextEditChanges content (earlier @ later) \<and>
         applyTextEditChanges content [] = Some content"
proof -
  let ?L = "sort_key e_line (filter (\<lambda>y. e_line y < e_line edit) (earlier @ later)) @
            filter (\<lambda>y. e_line y = e_line edit) earlier"
  let ?R = "filter (\<lambda>y. e_line y = e_line edit) later @
            sort_key e_line (filter (\<lambda>y. e_line edit < e_line y) (earlier @ later))"
  let ?s = "sort_key e_line (earlier @ edit # later)"
  let ?start = "str_split (CHR 0x0A) content"
  have s: "?s = ?L @ edit # ?R" by (rule sort_key_around(1))
  have s': "sort_key e_line (earlier @ later) = ?L @ ?R" by (rule sort_key_around(2))
  have len: "place_in_order earlier edit later = length ?L"
    by (simp add: place_in_order_def)
  have cut: "take (length ?L) ?s @ drop (Suc (length ?L)) ?s = ?L @ ?R"
    unfolding s by simp
  from out have "invalid_edit edit' lines" by (simp add: out_of_range_invalid)
  from apply_loop_skip [OF reach [unfolded len] this]
  have loop: "apply_loop ?start ?s = apply_loop ?start (sort_key e_line (earlier @ later))"
    unfolding cut s' .
  from nums have nums': "list_all exact_edit (earlier @ later)" by simp
  have skipped: "apply_loop ?start ?s = Some ?start" if "earlier @ later = []"
    using that loop by simp
  have "applyTextEditChanges content (earlier @ edit # later) =
          applyTextEditChanges content (earlier @ later)"
  proof (cases "earlier @ later = []")
    case True
    with skipped nums show ?thesis by (simp add: applyTextEditChanges_def str_join_split)
  next
    case False
    with loop nums nums' show ?thesis by (simp add: applyTextEditChanges_def str_join_split)
  qed
  then show ?thesis by (simp add: applyTextEditChanges_def)
qed

lemmas edit_eval = applyTextEditChanges_def del_def ins_def doc_ab_def invalid_edit_def edit_turn_def
  apply_edit_def adjust_edit_def count_or_1_def splice_js_def exact_edit_def exact_def chk_def
  place_in_order_def Let_def

theorem out_of_range_edit_ignored_witness:
  "reached (str_split (CHR 0x0A) doc_ab) (sort_key e_line ([] @ ins 9 ''x'' # [del 1]))
     (place_in_order [] (ins 9 ''x'') [del 1]) = Some ([''b''], ins 8 ''x'') \<and>
   out_of_range (ins 8 ''x'') [''b''] \<and>
   applyTextEditChanges doc_ab [ins 9 ''x'', del 1] = Some ''b'' \<and>
   applyTextEditChanges doc_ab [del 1] = Some ''b''"
proof -
  have n: "list_all exact_edit ([] @ ins 9 ''x'' # [del 1])"
    by (simp add: edit_eval)
  have r: "reached (str_split (CHR 0x0A) doc_ab) (sort_key e_line ([] @ ins 9 ''x'' # [del 1]))
     (place_in_order [] (ins 9 ''x'') [del 1]) = Some ([''b''], ins 8 ''x'')"
    by (simp add: edit_eval)
  have o: "out_of_range (ins 8 ''x'') [''b'']"
    by (simp add: out_of_range_def ins_def)
  have v: "applyTextEditChanges doc_ab [del 1] = Some ''b''"
    by (simp add: edit_eval)
  from out_of_range_edit_ignored [OF n r o] r o v show ?thesis by simp
qed

text \<open>
  Claim C10 as stated fails for the line number an edit is given with. In the document
  of the lines \<open>a\<close> and \<open>b\<close>, after the insert at line 1 there are three lines and the
  delete at line 5 is beyond them; the loop has moved it to line 6 and clamped it to
  line 3, so it removes \<open>b\<close>, and the result differs from that of the insert alone.
\<close>

theorem late_delete_counterexample:
  "reached (str_split (CHR 0x0A) doc_ab) (sort_key e_line [del 5, ins 1 ''x'']) 1 =
     Some ([''x'', ''a'', ''b''], del 3) \<and>
   out_of_range (del 5) [''x'', ''a'', ''b''] \<and>
   applyTextEditChanges doc_ab [del 5, ins 1 ''x''] = Some (''x'' @ [CHR 0x0A] @ ''a'') \<and>
   applyTextEditChanges doc_ab [ins 1 ''x''] = Some (''x'' @ [CHR 0x0A] @ ''a'' @ [CHR 0x0A] @ ''b'') \<and>
   applyTextEditChanges doc_ab [del 5, ins 1 ''x''] \<noteq> applyTextEditChanges doc_ab [ins 1 ''x'']"
  by (simp add: edit_eval out_of_range_def)

text \<open>
  A threshold beyond \<open>2^53\<close>, which the code rounds, is where the model stops.
\<close>

lemma beyond_exact_range_not_modelled:
  "applyTextEditChanges doc_ab
     [\<lparr>e_type = EDelete, e_line = 1, e_count = Some 9007199254740992, e_content = None\<rparr>,
      del 9007199254740992] = None"
  by (simp add: edit_eval)

section \<open>The command line of the terminal\<close>

lemmas parse_eval = parseCommand_def str_trim_def is_space_def match_here_def is_plain_def
  DQ_def SQ_def pushed_part_def toLowerCase_def lower_char_def Let_def

text \<open>
  Claim C2, at the input \<open>echo ""\<close>: the argument is the two quote characters, not the
  empty text between them, while a quoted text that is not empty loses its quotes.
\<close>

theorem parseCommand_keeps_empty_quotes:
  "parseCommand (''echo '' @ [DQ, DQ]) = Inr (''echo'', [[DQ, DQ]]) \<and>
   parseCommand (''echo '' @ [DQ] @ ''a b'' @ [DQ]) = Inr (''echo'', [''a b''])"
  by (simp add: parse_eval)

text \<open>A line that is a single quote character has no match, and \<open>parseCommand\<close> raises.\<close>

lemma parseCommand_lone_quote: "parseCommand [DQ] = Inl TypeError"
  by (simp add: parse_eval)

lemma path_parts_of_parts:
  assumes "\<forall>p \<in> set ps. p \<noteq> [] \<and> CHR ''/'' \<notin> set p"
  shows "path_parts (path_of_parts ps) = ps"
proof (cases "ps = []")
  case True
  then show ?thesis by (simp add: path_parts_def path_of_parts_def)
next
  case False
  with assms have "str_split (CHR ''/'') (str_join ''/'' ps) = ps"
    by (intro str_split_join) auto
  with False assms show ?thesis
    by (simp add: path_parts_def path_of_parts_def filter_id_conv)
qed

lemma path_parts_segments: "p \<in> set (path_parts s) \<Longrightarrow> p \<noteq> [] \<and> CHR ''/'' \<notin> set p"
  by (auto simp: path_parts_def dest: str_split_no_sep)

text \<open>
  Claim C4. For a command that parses to \<open>cd\<close> with first argument \<open>..\<close>, in every
  current path: \<open>processCommand\<close> navigates to the path made of the segments of the current
  path without the last one, which is \<open>/\<close> when the current path has at most one segment
  and, for a current path written as a slash before each segment, that path without its
  last segment; the output is empty and no error is reported.
\<close>

theorem cd_parent:
  assumes parsed: "parseCommand command = Inr (''cd'', ''..'' # rest)"
  shows "\<exists>newPath. processCommand env command =
            Inr \<lparr>cr_output = [], cr_isError = False, cr_effects = [NavigateToPath newPath]\<rparr> \<and>
          newPath = path_of_parts (butlast (path_parts (currentPath env))) \<and>
          path_parts newPath = butlast (path_parts (currentPath env)) \<and>
          (length (path_parts (currentPath env)) \<le> 1 \<longrightarrow> newPath = ''/'') \<and>
          (\<forall>segments. currentPath env = path_of_parts segments \<and>
              (\<forall>p \<in> set segments. p \<noteq> [] \<and> CHR ''/'' \<notin> set p) \<longrightarrow>
            newPath = path_of_parts (butlast segments))"
proof -
  let ?parts = "path_parts (currentPath env)"
  let ?new = "path_of_parts (butlast ?parts)"
  have run: "processCommand env command =
      Inr \<lparr>cr_output = [], cr_isError = False, cr_effects = [NavigateToPath ?new]\<rparr>"
    using parsed
    by (simp add: processCommand_def run_command_def cd_command_def success_def path_of_parts_def Let_def)
  have "\<forall>p \<in> set (butlast ?parts). p \<noteq> [] \<and> CHR ''/'' \<notin> set p"
    by (auto dest!: in_set_butlastD path_parts_segments)
  then have segs: "path_parts ?new = butlast ?parts" by (rule path_parts_of_parts)
  have root: "length ?parts \<le> 1 \<longrightarrow> ?new = ''/''"
    by (cases ?parts) (auto simp: path_of_parts_def)
  have normal: "\<forall>segments. currentPath env = path_of_parts segments \<and>
              (\<forall>p \<in> set segments. p \<noteq> [] \<and> CHR ''/'' \<notin> set p) \<longrightarrow>
            ?new = path_of_parts (butlast segments)"
    by (auto simp: path_parts_of_parts)
  from run segs root normal show ?thesis by blast
qed

theorem cd_parent_witness:
  "parseCommand ''cd ..'' = Inr (''cd'', [''..'']) \<and>
   processCommand env0 ''cd ..'' =
     Inr \<lparr>cr_output = [], cr_isError = False, cr_effects = [NavigateToPath ''/Documents'']\<rparr> \<and>
   processCommand (env0\<lparr>currentPath := ''/''\<rparr>) ''cd ..'' =
     Inr \<lparr>cr_output = [], cr_isError = False, cr_effects = [NavigateToPath ''/'']\<rparr>"
proof -
  have p: "parseCommand ''cd ..'' = Inr (''cd'', ''..'' # [])"
    by (simp add: parse_eval)
  from cd_parent [OF p, of env0] cd_parent [OF p, of "env0\<lparr>currentPath := ''/''\<rparr>"] p
  show ?thesis
    by (simp add: env0_def path_parts_def path_of_parts_def)
qed

text \<open>
  Claim C5, at the line that is a single double quote. The line is not blank, so
  \<open>handleCommandSubmit\<close> hands it on; \<open>processCommand\<close> returns no text and no error flag:
  \<open>parseCommand\<close> raises a TypeError, in every directory.
\<close>

theorem processCommand_raises_on_lone_quote:
  "processCommand env [DQ] = Inl TypeError"
  by (simp add: processCommand_def parseCommand_lone_quote)

text \<open>
  For a line that has a token the two messages are as the claim says: a command name
  that is none of the fixed names gives \<open>command not found: <cmd>. type 'help' for a list
  of available commands.\<close>, and \<open>cat\<close> of a name that no file of the current directory
  has gives \<open>file not found: <name>\<close>, each with the error flag set.
\<close>

lemma command_errors_are_strings:
  "(parseCommand command = Inr (cmd, args) \<and> cmd \<notin> set fixed_commands \<longrightarrow>
      processCommand env command =
        Inr \<lparr>cr_output = ''command not found: '' @ cmd @
                ''. type 'help' for a list of available commands.'',
             cr_isError = True, cr_effects = []\<rparr>) \<and>
   (parseCommand command = Inr (''cat'', fileName # rest) \<and>
    fileName \<notin> fi_name ` set (files env) \<longrightarrow>
      processCommand env command =
        Inr \<lparr>cr_output = ''file not found: '' @ fileName, cr_isError = True, cr_effects = []\<rparr>)"
proof (intro conjI impI)
  assume "parseCommand command = Inr (cmd, args) \<and> cmd \<notin> set fixed_commands"
  then show "processCommand env command =
        Inr \<lparr>cr_output = ''command not found: '' @ cmd @
                ''. type 'help' for a list of available commands.'',
             cr_isError = True, cr_effects = []\<rparr>"
    by (simp add: processCommand_def run_command_def fixed_commands_def failure_def)
next
  assume a: "parseCommand command = Inr (''cat'', fileName # rest) \<and>
    fileName \<notin> fi_name ` set (files env)"
  then have "find_file (files env) fileName = None"
    by (auto simp: find_file_def find_None_iff)
  with a show "processCommand env command =
        Inr \<lparr>cr_output = ''file not found: '' @ fileName, cr_isError = True, cr_effects = []\<rparr>"
    by (simp add: processCommand_def run_command_def cat_command_def failure_def)
qed

lemma command_errors_at_two_lines:
  "processCommand env0 ''frob x'' =
     Inr \<lparr>cr_output = ''command not found: frob. type 'help' for a list of available commands.'',
          cr_isError = True, cr_effects = []\<rparr> \<and>
   processCommand env0 ''cat b.txt'' =
     Inr \<lparr>cr_output = ''file not found: b.txt'', cr_isError = True, cr_effects = []\<rparr>"
proof -
  have p1: "parseCommand ''frob x'' = Inr (''frob'', [''x''])" by (simp add: parse_eval)
  have n1: "''frob'' \<notin> set fixed_commands" by (simp add: fixed_commands_def)
  have p2: "parseCommand ''cat b.txt'' = Inr (''cat'', ''b.txt'' # [])" by (simp add: parse_eval)
  have n2: "''b.txt'' \<notin> fi_name ` set (files env0)" by (simp add: env0_def)
  from command_errors_are_strings [of "''frob x''" "''frob''" "[''x'']" env0 "''b.txt''" "[]"]
    command_errors_are_strings [of "''cat b.txt''" "''cat''" "[''b.txt'']" env0 "''b.txt''" "[]"]
    p1 n1 p2 n2
  show ?thesis by simp
qed


end
